theory Spec2Isabelle
  imports
    Complex_Main
    "HOL-Library.Product_Lexorder"
    "HOL-Library.Char_ord"
    "HOL-Library.List_Lexorder"
    "HOL-Library.Multiset"
begin

section \<open>The MetaTrader 5 performance dashboard (src/app.py)\<close>

text \<open>
  The program is one Streamlit script. Its module body reads two dates and a button,
  validates the dates, opens the broker terminal, fetches the deals of the period,
  closes the terminal, classifies the deals, computes the performance figures and
  renders them. The embedding below follows the script line by line:
  \<^item> monetary amounts (Python floats) are rationals and the state adds them exactly; the
    two sums whose order of addition differs (lines 86 and 121) are given in binary64 as
    well, in a subsection of their own;
  \<^item> a DataFrame is an object in a store, addressed by the script's variables, because
    the script mutates one frame in place (lines 121 and 148);
  \<^item> the broker terminal, Streamlit's memo of \<open>get_trade_history\<close> and the sorting
    routines of pandas are the environment of a request;
  \<^item> what the script does to the outside (broker calls, messages, metrics, charts,
    tables) is a trace of events; static page text (titles, headers, the spinner, the
    expanders) is not traced.
\<close>

subsection \<open>Constants of the MetaTrader5 package\<close>

text \<open>
  The script compares the columns \<open>type\<close> and \<open>entry\<close> with these constants of the
  package; they have the values the package gives them.
\<close>

definition DEAL_TYPE_BUY :: int where "DEAL_TYPE_BUY = 0"
definition DEAL_TYPE_SELL :: int where "DEAL_TYPE_SELL = 1"
definition DEAL_TYPE_BALANCE :: int where "DEAL_TYPE_BALANCE = 2"
definition DEAL_ENTRY_IN :: int where "DEAL_ENTRY_IN = 0"
definition DEAL_ENTRY_OUT :: int where "DEAL_ENTRY_OUT = 1"

subsection \<open>Dates (lines 53 to 58)\<close>

text \<open>
  A \<open>datetime.date\<close> is (year, month, day), a \<open>datetime.time\<close> is (hour, minute,
  second, microsecond) and a naive \<open>datetime\<close> is the pair of both. Python compares
  each of them field by field from the left, which is the lexicographic order of the
  tuples.
\<close>

type_synonym date = "nat \<times> nat \<times> nat"
type_synonym time_of_day = "nat \<times> nat \<times> nat \<times> nat"
type_synonym datetime = "date \<times> time_of_day"

definition datetime_min_time :: time_of_day where
  "datetime_min_time = (0, 0, 0, 0)"

definition datetime_max_time :: time_of_day where
  "datetime_max_time = (23, 59, 59, 999999)"

definition datetime_combine :: "date \<Rightarrow> time_of_day \<Rightarrow> datetime" where
  "datetime_combine d t = (d, t)"

definition start_datetime :: "date \<Rightarrow> datetime" where
  "start_datetime start_date = datetime_combine start_date datetime_min_time"

definition end_datetime :: "date \<Rightarrow> datetime" where
  "end_datetime end_date = datetime_combine end_date datetime_max_time"

subsection \<open>Deals and DataFrames\<close>

text \<open>
  A deal carries the fields the script reads. The broker delivers \<open>type\<close> as an
  integer; in a DataFrame the column \<open>type\<close> holds integers until line 148 replaces
  some of them by strings, so a cell of that column is either. \<open>time\<close> is in epoch
  seconds; \<open>pd.to_datetime(unit='s')\<close> keeps their order and is not modelled apart.
\<close>

datatype cell = Int_cell int | Str_cell string

record 'ty deal =
  time :: int
  ticket :: int
  symbol :: string
  type :: 'ty
  entry :: int
  volume :: rat
  price :: rat
  profit :: rat
  comment :: string

record frame =
  rows :: "cell deal list"
  cumulative_profit :: "rat list option"

definition DataFrame :: "cell deal list \<Rightarrow> frame" where
  "DataFrame rs = \<lparr>rows = rs, cumulative_profit = None\<rparr>"

definition frame_row :: "int deal \<Rightarrow> cell deal" where
  "frame_row d = \<lparr>time = time d, ticket = ticket d, symbol = symbol d,
     type = Int_cell (type d), entry = entry d, volume = volume d, price = price d,
     profit = profit d, comment = comment d\<rparr>"

definition empty :: "frame \<Rightarrow> bool" where
  "empty df \<longleftrightarrow> rows df = []"

text \<open>\<open>df[mask]\<close>: the rows where the mask holds, with the added column cut alike.\<close>

definition select_rows :: "(cell deal \<Rightarrow> bool) \<Rightarrow> frame \<Rightarrow> frame" where
  "select_rows p df =
     \<lparr>rows = filter p (rows df),
      cumulative_profit =
        (case cumulative_profit df of
           None \<Rightarrow> None
         | Some cs \<Rightarrow> Some (map snd (filter (\<lambda>rc. p (fst rc)) (zip (rows df) cs))))\<rparr>"

fun cumsum_from :: "rat \<Rightarrow> rat list \<Rightarrow> rat list" where
  "cumsum_from acc [] = []"
| "cumsum_from acc (x # xs) = (acc + x) # cumsum_from (acc + x) xs"

definition cumsum :: "rat list \<Rightarrow> rat list" where
  "cumsum xs = cumsum_from 0 xs"

definition mean :: "rat list \<Rightarrow> rat" where
  "mean xs = sum_list xs / of_nat (length xs)"

text \<open>Line 77 and line 80: the two masks of the classification.\<close>

definition is_trade :: "cell deal \<Rightarrow> bool" where
  "is_trade r \<longleftrightarrow> type r \<in> set [Int_cell DEAL_TYPE_BUY, Int_cell DEAL_TYPE_SELL]"

definition is_balance :: "cell deal \<Rightarrow> bool" where
  "is_balance r \<longleftrightarrow> type r = Int_cell DEAL_TYPE_BALANCE"

text \<open>Line 148: \<open>Series.replace\<close> with a dictionary; other cells stay.\<close>

definition replace :: "cell \<Rightarrow> cell" where
  "replace c =
     (if c = Int_cell DEAL_TYPE_BUY then Str_cell ''Sell''
      else if c = Int_cell DEAL_TYPE_SELL then Str_cell ''Buy''
      else c)"

text \<open>
  Line 133: \<open>groupby('symbol')['profit'].sum()\<close> has one entry per symbol, in the
  order of the symbols.
\<close>

definition groupby_symbol_sum :: "cell deal list \<Rightarrow> (string \<times> rat) list" where
  "groupby_symbol_sum rs =
     map (\<lambda>k. (k, sum_list (map profit (filter (\<lambda>r. symbol r = k) rs))))
       (sort (remdups (map symbol rs)))"

subsection \<open>The environment of one request\<close>

text \<open>
  \<open>mt5.initialize()\<close> answers true or false. \<open>mt5.history_deals_get\<close> raises, answers
  \<open>None\<close> or answers a tuple of deals. \<open>memo\<close> is what Streamlit's cache
  (\<open>st.cache_data\<close>, line 26) holds for the arguments when \<open>get_trade_history\<close> is
  called: \<open>None\<close> when it holds nothing or the entry is older than its 600 seconds.
  \<open>sort_values\<close> is called without \<open>kind\<close> at lines 37 and 133, which selects the
  quicksort of pandas; it is a parameter, and \<open>sort_values_ok\<close> is what pandas
  promises of it: the result is the input reordered, ascending in the key. The sort
  pandas runs at line 37 is written out further down, as one such parameter.
\<close>

datatype fetch = Fetch_raises | Fetch_none | Fetch_deals "int deal list"

record env =
  mt5_initialize :: bool
  mt5_history_deals_get :: "datetime \<Rightarrow> datetime \<Rightarrow> fetch"
  memo :: "datetime \<Rightarrow> datetime \<Rightarrow> frame option"
  sort_values_time :: "cell deal list \<Rightarrow> cell deal list"
  sort_values_profit :: "(string \<times> rat) list \<Rightarrow> (string \<times> rat) list"

definition sort_values_ok :: "('a \<Rightarrow> 'k::linorder) \<Rightarrow> ('a list \<Rightarrow> 'a list) \<Rightarrow> bool" where
  "sort_values_ok key f \<longleftrightarrow> (\<forall>xs. mset (f xs) = mset xs \<and> sorted (map key (f xs)))"

datatype num = Fin rat | PosInf

datatype event =
    MT5_initialize
  | Get_trade_history datetime datetime
  | MT5_history_deals_get datetime datetime
  | MT5_shutdown
  | St_error string
  | St_warning string
  | St_info string
  | St_metric string num
  | Plotly_line "(int \<times> rat) list"
  | Plotly_bar "(string \<times> rat) list"
  | Trade_table "cell deal list"
  | Balance_table "(int \<times> int \<times> rat) list"

datatype outcome = Done | Stopped | Raised

subsection \<open>The broker calls (lines 18 to 38 and 68 to 71)\<close>

text \<open>
  \<open>connect_to_mt5\<close> returns, or reports the failure and ends the script by
  \<open>st.stop()\<close>; the flag says whether it returned.
\<close>

definition connect_to_mt5 :: "env \<Rightarrow> event list \<times> bool" where
  "connect_to_mt5 e =
     (if \<not> mt5_initialize e
      then ([MT5_initialize,
             St_error ''Failed to initialize MetaTrader 5. Make sure the terminal is running.''],
            False)
      else ([MT5_initialize], True))"

text \<open>
  The body of \<open>get_trade_history\<close> (lines 29 to 38); \<open>None\<close> is the exception of
  the broker call passing through.
\<close>

definition get_trade_history_body :: "env \<Rightarrow> datetime \<Rightarrow> datetime \<Rightarrow> frame option" where
  "get_trade_history_body e start_date end_date =
     (case mt5_history_deals_get e start_date end_date of
        Fetch_raises \<Rightarrow> None
      | Fetch_none \<Rightarrow> Some (DataFrame [])
      | Fetch_deals deals \<Rightarrow>
          (if length deals = 0 then Some (DataFrame [])
           else Some (DataFrame (sort_values_time e (map frame_row deals)))))"

text \<open>The function as the script sees it, behind \<open>st.cache_data\<close>.\<close>

definition get_trade_history :: "env \<Rightarrow> datetime \<Rightarrow> datetime \<Rightarrow> event list \<times> frame option" where
  "get_trade_history e start_date end_date =
     (case memo e start_date end_date of
        Some df \<Rightarrow> ([Get_trade_history start_date end_date], Some df)
      | None \<Rightarrow>
          ([Get_trade_history start_date end_date, MT5_history_deals_get start_date end_date],
           get_trade_history_body e start_date end_date))"

text \<open>
  Lines 69 to 71. Nothing catches \<open>st.stop()\<close> or an exception here, so either ends
  the script on the spot.
\<close>

definition fetch_block :: "env \<Rightarrow> datetime \<Rightarrow> datetime \<Rightarrow> event list \<times> (outcome + frame)" where
  "fetch_block e sdt edt =
     (case connect_to_mt5 e of
        (ev1, False) \<Rightarrow> (ev1, Inl Stopped)
      | (ev1, True) \<Rightarrow>
          (case get_trade_history e sdt edt of
             (ev2, None) \<Rightarrow> (ev1 @ ev2, Inl Raised)
           | (ev2, Some raw) \<Rightarrow> (ev1 @ ev2 @ [MT5_shutdown], Inr raw)))"

subsection \<open>The state of the script after the fetch (lines 73 to 168)\<close>

text \<open>
  The variables that hold DataFrames hold addresses into \<open>heap\<close>; \<open>fresh\<close> is the next
  unused address and address 0 is used by no frame. The figures are plain values.
\<close>

record pystate =
  heap :: "nat \<Rightarrow> frame"
  fresh :: nat
  raw_data :: nat
  trade_data :: nat
  balance_data :: nat
  closing_deals :: nat
  wins :: nat
  losses :: nat
  net_profit :: rat
  total_trades :: nat
  winning_trades :: nat
  losing_trades :: nat
  win_rate :: rat
  total_profit :: rat
  total_loss :: rat
  profit_factor :: num
  avg_win :: rat
  avg_loss :: rat
  profit_by_symbol :: "(string \<times> rat) list"
  out :: "event list"

definition new_frame :: "frame \<Rightarrow> pystate \<Rightarrow> nat \<times> pystate" where
  "new_frame df s = (fresh s, s\<lparr>heap := (heap s)(fresh s := df), fresh := Suc (fresh s)\<rparr>)"

definition emit :: "event \<Rightarrow> pystate \<Rightarrow> pystate" where
  "emit ev s = s\<lparr>out := out s @ [ev]\<rparr>"

definition init :: "frame \<Rightarrow> pystate" where
  "init raw =
     \<lparr>heap = (\<lambda>a. DataFrame [])(1 := raw), fresh = 2, raw_data = 1, trade_data = 0,
      balance_data = 0, closing_deals = 0, wins = 0, losses = 0, net_profit = 0,
      total_trades = 0, winning_trades = 0, losing_trades = 0, win_rate = 0,
      total_profit = 0, total_loss = 0, profit_factor = Fin 0, avg_win = 0, avg_loss = 0,
      profit_by_symbol = [], out = []\<rparr>"

text \<open>
  Lines 77 and 80. Indexing by a mask builds a new frame, and \<open>.copy()\<close> builds
  another one from it.
\<close>

definition classify :: "pystate \<Rightarrow> pystate" where
  "classify s =
     (let (t1, s1) = new_frame (select_rows is_trade (heap s (raw_data s))) s;
          (t2, s2) = new_frame (heap s1 t1) s1;
          s3 = s2\<lparr>trade_data := t2\<rparr>;
          (b1, s4) = new_frame (select_rows is_balance (heap s3 (raw_data s3))) s3;
          (b2, s5) = new_frame (heap s4 b1) s4
      in s5\<lparr>balance_data := b2\<rparr>)"

text \<open>Lines 86 to 90.\<close>

definition count_trades :: "pystate \<Rightarrow> pystate" where
  "count_trades s =
     (let s1 = s\<lparr>net_profit := sum_list (map profit (rows (heap s (trade_data s))))\<rparr>;
          (c, s2) = new_frame
            (select_rows (\<lambda>r. entry r = DEAL_ENTRY_OUT) (heap s1 (trade_data s1))) s1;
          s3 = s2\<lparr>closing_deals := c\<rparr>
      in s3\<lparr>total_trades := length (rows (heap s3 (closing_deals s3)))\<rparr>)"

text \<open>Lines 92 to 96.\<close>

definition split_wins_losses :: "pystate \<Rightarrow> pystate" where
  "split_wins_losses s =
     (let (w, s1) = new_frame (select_rows (\<lambda>r. profit r > 0) (heap s (closing_deals s))) s;
          s2 = s1\<lparr>wins := w\<rparr>;
          (l, s3) = new_frame (select_rows (\<lambda>r. profit r < 0) (heap s2 (closing_deals s2))) s2;
          s4 = s3\<lparr>losses := l\<rparr>;
          s5 = s4\<lparr>winning_trades := length (rows (heap s4 (wins s4)))\<rparr>
      in s5\<lparr>losing_trades := length (rows (heap s5 (losses s5)))\<rparr>)"

text \<open>Lines 98 to 103.\<close>

definition ratios :: "pystate \<Rightarrow> pystate" where
  "ratios s =
     (let s1 = s\<lparr>win_rate :=
            (if total_trades s > 0
             then of_nat (winning_trades s) / of_nat (total_trades s) * 100 else 0)\<rparr>;
          s2 = s1\<lparr>total_profit := sum_list (map profit (rows (heap s1 (wins s1))))\<rparr>;
          s3 = s2\<lparr>total_loss := \<bar>sum_list (map profit (rows (heap s2 (losses s2))))\<bar>\<rparr>
      in s3\<lparr>profit_factor :=
            (if total_loss s3 > 0 then Fin (total_profit s3 / total_loss s3) else PosInf)\<rparr>)"

text \<open>Lines 105 and 106.\<close>

definition averages :: "pystate \<Rightarrow> pystate" where
  "averages s =
     (let s1 = s\<lparr>avg_win :=
            (if winning_trades s > 0 then mean (map profit (rows (heap s (wins s)))) else 0)\<rparr>
      in s1\<lparr>avg_loss :=
            (if losing_trades s1 > 0
             then \<bar>mean (map profit (rows (heap s1 (losses s1))))\<bar> else 0)\<rparr>)"

text \<open>Lines 86 to 106.\<close>

definition metrics :: "pystate \<Rightarrow> pystate" where
  "metrics s = averages (ratios (split_wins_losses (count_trades s)))"

text \<open>Lines 111 to 115; the metric shows the figure, whose formatting is not modelled.\<close>

definition kpis :: "pystate \<Rightarrow> pystate" where
  "kpis s =
     emit (St_metric ''Profit Factor'' (profit_factor s))
       (emit (St_metric ''Win Rate (%)'' (Fin (win_rate s)))
         (emit (St_metric ''Total Trades'' (Fin (of_nat (total_trades s))))
           (emit (St_metric ''Net Profit ($)'' (Fin (net_profit s))) s)))"

text \<open>
  Lines 121 to 145. Line 121 writes a column into the frame \<open>trade_data\<close> points to;
  the line chart reads that column back.
\<close>

definition charts :: "env \<Rightarrow> pystate \<Rightarrow> pystate" where
  "charts e s =
     (let td = heap s (trade_data s);
          s1 = s\<lparr>heap := (heap s)(trade_data s :=
                 td\<lparr>cumulative_profit := Some (cumsum (map profit (rows td)))\<rparr>)\<rparr>;
          td1 = heap s1 (trade_data s1);
          s2 = emit (Plotly_line (zip (map time (rows td1))
                 (case cumulative_profit td1 of None \<Rightarrow> [] | Some cs \<Rightarrow> cs))) s1;
          s3 = s2\<lparr>profit_by_symbol :=
                 sort_values_profit e (groupby_symbol_sum (rows (heap s2 (closing_deals s2))))\<rparr>
      in emit (Plotly_bar (profit_by_symbol s3)) s3)"

text \<open>Line 148: the column \<open>type\<close> of the frame \<open>trade_data\<close> points to is overwritten.\<close>

definition relabel_type :: "pystate \<Rightarrow> pystate" where
  "relabel_type s =
     (let td = heap s (trade_data s)
      in s\<lparr>heap := (heap s)(trade_data s :=
             td\<lparr>rows := map (\<lambda>r. r\<lparr>type := replace (type r)\<rparr>) (rows td)\<rparr>)\<rparr>)"

text \<open>Line 151: \<open>trade_data\<close> is bound to a new frame without the rows of profit 0.\<close>

definition zero_profit_filter :: "pystate \<Rightarrow> pystate" where
  "zero_profit_filter s =
     (let (t, s1) = new_frame (select_rows (\<lambda>r. profit r \<noteq> 0) (heap s (trade_data s))) s
      in s1\<lparr>trade_data := t\<rparr>)"

text \<open>Lines 154 to 168; the trade table shows every modelled column.\<close>

definition detail_sections :: "pystate \<Rightarrow> pystate" where
  "detail_sections s =
     (let s1 = emit (Trade_table (rows (heap s (trade_data s)))) s
      in if \<not> empty (heap s1 (balance_data s1))
         then emit (Balance_table
                (map (\<lambda>r. (time r, ticket r, profit r)) (rows (heap s1 (balance_data s1))))) s1
         else s1)"

text \<open>Lines 73 to 168.\<close>

definition dashboard :: "env \<Rightarrow> frame \<Rightarrow> pystate" where
  "dashboard e raw =
     (let s0 = init raw
      in if empty (heap s0 (raw_data s0))
         then emit (St_warning
           ''No account activity found for the selected period. Please select a different date range.'') s0
         else
           (let s1 = classify s0
            in if empty (heap s1 (trade_data s1))
               then emit (St_warning
                 ''No actual trades (Buys/Sells) found for the selected period. Only balance operations were detected.'') s1
               else detail_sections (zero_profit_filter (relabel_type
                      (charts e (kpis (metrics s1)))))))"

subsection \<open>The script from the button on (lines 63 to 170)\<close>

record ui =
  start_date :: date
  end_date :: date
  analyze_button :: bool

definition run :: "env \<Rightarrow> ui \<Rightarrow> event list \<times> outcome" where
  "run e u =
     (if analyze_button u then
        (if start_datetime (start_date u) \<ge> end_datetime (end_date u)
         then ([St_error ''Error: Start date must be before the end date.''], Done)
         else
           (case fetch_block e (start_datetime (start_date u)) (end_datetime (end_date u)) of
              (ev, Inl oc) \<Rightarrow> (ev, oc)
            | (ev, Inr raw) \<Rightarrow> (ev @ out (dashboard e raw), Done)))
      else ([St_info ''Please select a date range and click 'Analyze Performance' to begin.''],
            Done))"

text \<open>The broker calls among the events.\<close>

fun is_call :: "event \<Rightarrow> bool" where
  "is_call MT5_initialize = True"
| "is_call (Get_trade_history a b) = True"
| "is_call (MT5_history_deals_get a b) = True"
| "is_call MT5_shutdown = True"
| "is_call ev = False"

subsection \<open>Sums in binary64 (lines 86 and 121)\<close>














subsection \<open>The default sort of pandas (line 37)\<close>

text \<open>
  \<open>sort_values('time')\<close> without \<open>kind\<close> sorts the column by numpy's \<open>argsort\<close> of kind
  quicksort and takes the rows in the order of the resulting indices. For the
  datetimes of the column that is \<open>aquicksort_\<close> of numpy's \<open>npysort/quicksort.cpp\<close>,
  written out here: \<open>v\<close> are the keys and \<open>ix\<close> the array of indices being sorted; a
  range of more than 17 indices is partitioned around the median of three, a shorter
  one is sorted by insertion, and the ranges still to do wait on a stack. The scans
  of the partition are stopped at the ends of the array, where the C code relies on
  its sentinels. When the depth limit is reached numpy sorts the range by heapsort,
  which is not modelled: the result is \<open>None\<close> then.
\<close>

definition swap :: "nat list \<Rightarrow> nat \<Rightarrow> nat \<Rightarrow> nat list" where
  "swap ix i j = ix[i := ix ! j, j := ix ! i]"

function scan_up :: "int list \<Rightarrow> nat list \<Rightarrow> int \<Rightarrow> nat \<Rightarrow> nat" where
  "scan_up v ix vp i =
     (if i < length ix \<and> v ! (ix ! i) < vp then scan_up v ix vp (Suc i) else i)"
  by pat_completeness auto
termination
  by (relation "measure (\<lambda>(v, ix, vp, i). length ix - i)") auto

function scan_down :: "int list \<Rightarrow> nat list \<Rightarrow> int \<Rightarrow> nat \<Rightarrow> nat" where
  "scan_down v ix vp j =
     (if 0 < j \<and> vp < v ! (ix ! j) then scan_down v ix vp (j - 1) else j)"
  by pat_completeness auto
termination
  by (relation "measure (\<lambda>(v, ix, vp, j). j)") auto

declare scan_up.simps [simp del] scan_down.simps [simp del]

text \<open>The loop \<open>for (;;)\<close> of the partition: it returns the indices and the final place of the left scan (\<open>i\<close> and \<open>j\<close> are the pointers \<open>pi\<close> and \<open>pj\<close> of the C code).\<close>

partial_function (option) partition_loop ::
  "int list \<Rightarrow> nat list \<Rightarrow> int \<Rightarrow> nat \<Rightarrow> nat \<Rightarrow> (nat list \<times> nat) option" where
  "partition_loop v ix vp i j =
     (let i' = scan_up v ix vp (Suc i);
          j' = scan_down v ix vp (j - 1)
      in if i' \<ge> j' then Some (ix, i')
         else partition_loop v (swap ix i' j') vp i' j')"

function insert_down :: "int list \<Rightarrow> nat list \<Rightarrow> int \<Rightarrow> nat \<Rightarrow> nat \<Rightarrow> nat list \<times> nat" where
  "insert_down v ix vp pl j =
     (if pl < j \<and> vp < v ! (ix ! (j - 1))
      then insert_down v (ix[j := ix ! (j - 1)]) vp pl (j - 1)
      else (ix, j))"
  by pat_completeness auto
termination
  by (relation "measure (\<lambda>(v, ix, vp, pl, j). j)") auto

function insertion_sort :: "int list \<Rightarrow> nat list \<Rightarrow> nat \<Rightarrow> nat \<Rightarrow> nat \<Rightarrow> nat list" where
  "insertion_sort v ix pl pr i =
     (if i \<le> pr then
        (let vi = ix ! i;
             (ix', j) = insert_down v ix (v ! vi) pl i
         in insertion_sort v (ix'[j := vi]) pl pr (Suc i))
      else ix)"
  by pat_completeness auto
termination
  by (relation "measure (\<lambda>(v, ix, pl, pr, i). Suc pr - i)") auto

declare insert_down.simps [simp del] insertion_sort.simps [simp del]

fun npy_get_msb :: "nat \<Rightarrow> nat" where
  "npy_get_msb n = (if n < 2 then 0 else Suc (npy_get_msb (n div 2)))"

declare npy_get_msb.simps [simp del]

definition median_of_three :: "int list \<Rightarrow> nat list \<Rightarrow> nat \<Rightarrow> nat \<Rightarrow> nat \<Rightarrow> nat list" where
  "median_of_three v ix pl pm pr =
     (let ix1 = (if v ! (ix ! pm) < v ! (ix ! pl) then swap ix pm pl else ix);
          ix2 = (if v ! (ix1 ! pr) < v ! (ix1 ! pm) then swap ix1 pr pm else ix1)
      in if v ! (ix2 ! pm) < v ! (ix2 ! pl) then swap ix2 pm pl else ix2)"

text \<open>
  The outer loop. \<open>inner\<close> says that control is inside \<open>while ((pr - pl) > 16)\<close>, where
  the depth is not tested; the stack holds the ranges pushed with their depths.
\<close>

partial_function (option) aquicksort_loop ::
  "int list \<Rightarrow> nat list \<Rightarrow> nat \<Rightarrow> nat \<Rightarrow> (nat \<times> nat \<times> int) list \<Rightarrow> int \<Rightarrow> bool
     \<Rightarrow> nat list option" where
  "aquicksort_loop v ix pl pr stack cdepth inner =
     (if \<not> inner \<and> cdepth < 0 then None
      else if pr - pl > 16 then
        (let pm = pl + (pr - pl) div 2;
             ix3 = median_of_three v ix pl pm pr;
             vp = v ! (ix3 ! pm);
             ix4 = swap ix3 pm (pr - 1)
         in case partition_loop v ix4 vp pl (pr - 1) of
              None \<Rightarrow> None
            | Some (ix5, i) \<Rightarrow>
                (let ix6 = swap ix5 i (pr - 1)
                 in if i - pl < pr - i
                    then aquicksort_loop v ix6 pl (i - 1)
                           ((i + 1, pr, cdepth - 1) # stack) (cdepth - 1) True
                    else aquicksort_loop v ix6 (i + 1) pr
                           ((pl, i - 1, cdepth - 1) # stack) (cdepth - 1) True))
      else
        (let ix' = insertion_sort v ix pl pr (Suc pl)
         in case stack of
              [] \<Rightarrow> Some ix'
            | (pl', pr', d) # stack' \<Rightarrow> aquicksort_loop v ix' pl' pr' stack' d False))"

declare partition_loop.simps [code] aquicksort_loop.simps [code]

definition aquicksort :: "int list \<Rightarrow> nat list option" where
  "aquicksort v =
     aquicksort_loop v [0..<length v] 0 (length v - 1) []
       (int (npy_get_msb (length v)) * 2) False"

text \<open>The frame in the order of the indices; it is left as it is where they are \<open>None\<close>.\<close>

definition sort_values_quicksort :: "cell deal list \<Rightarrow> cell deal list" where
  "sort_values_quicksort rs =
     (case aquicksort (map time rs) of
        None \<Rightarrow> rs
      | Some ix \<Rightarrow> map (\<lambda>i. rs ! i) ix)"

subsection \<open>What the memo may hold\<close>

text \<open>
  \<open>st.cache_data\<close> stores what the function returned. So a frame the memo holds for two
  arguments is a frame the body of \<open>get_trade_history\<close> returned for them in an earlier
  request, with a sort that returned its input reordered and ascending in time.
\<close>

definition memo_ok :: "env \<Rightarrow> bool" where
  "memo_ok e \<longleftrightarrow>
     (\<forall>a b df. memo e a b = Some df \<longrightarrow>
        (\<exists>e'. sort_values_ok time (sort_values_time e')
           \<and> get_trade_history_body e' a b = Some df))"

subsection \<open>Example requests\<close>

definition example_deal :: "int \<Rightarrow> int \<Rightarrow> string \<Rightarrow> int \<Rightarrow> int \<Rightarrow> rat \<Rightarrow> int deal" where
  "example_deal t k sy ty en p =
     \<lparr>time = t, ticket = k, symbol = sy, type = ty, entry = en, volume = 1 / 10,
      price = 1, profit = p, comment = []\<rparr>"

text \<open>
  A closing sell that lost 40, an opening buy, a closing sell that won 100, a deposit
  and a deal of another kind, not in the order of their times.
\<close>

definition example_deals :: "int deal list" where
  "example_deals =
     [example_deal 300 3 ''GBPUSD'' 1 1 (- 40),
      example_deal 100 1 ''EURUSD'' 0 0 0,
      example_deal 200 2 ''EURUSD'' 1 1 100,
      example_deal 50 4 [] 2 0 500,
      example_deal 60 5 [] 6 0 (- 1)]"

definition example_env :: env where
  "example_env =
     \<lparr>mt5_initialize = True,
      mt5_history_deals_get = (\<lambda>a b. Fetch_deals example_deals),
      memo = (\<lambda>a b. None),
      sort_values_time = sort_key time,
      sort_values_profit = sort_key snd\<rparr>"

definition example_ui :: ui where
  "example_ui = \<lparr>start_date = (2024, 1, 15), end_date = (2024, 1, 15), analyze_button = True\<rparr>"

text \<open>Two closing deals of the same second.\<close>

definition tied_deals :: "int deal list" where
  "tied_deals =
     [example_deal 100 1 ''EURUSD'' 0 1 10,
      example_deal 100 2 ''EURUSD'' 1 1 (- 5)]"

text \<open>The frame of the example deals as the broker lists them.\<close>

definition example_raw :: frame where
  "example_raw = DataFrame (map frame_row example_deals)"

text \<open>An opening buy and a closing sell that neither won nor lost.\<close>

definition flat_deals :: "int deal list" where
  "flat_deals =
     [example_deal 100 1 ''EURUSD'' 0 0 0,
      example_deal 200 2 ''EURUSD'' 1 1 0]"

text \<open>Two opening deals, no closing one.\<close>

definition open_deals :: "int deal list" where
  "open_deals =
     [example_deal 100 1 ''EURUSD'' 0 0 0,
      example_deal 200 2 ''GBPUSD'' 1 0 5]"


text \<open>
  Eighteen closing deals of the same second, with the profits 1 to 18, and a request
  whose frame is sorted by the quicksort of numpy.
\<close>

definition same_second_deals :: "int deal list" where
  "same_second_deals =
     map (\<lambda>k. example_deal 100 k ''EURUSD'' 0 1 (of_int k))
       [1, 2, 3, 4, 5, 6, 7, 8, 9, 10, 11, 12, 13, 14, 15, 16, 17, 18]"

definition quicksort_env :: env where
  "quicksort_env = example_env
     \<lparr>mt5_history_deals_get := (\<lambda>a b. Fetch_deals same_second_deals),
      sort_values_time := sort_values_quicksort\<rparr>"

text \<open>A request that is served from the memo; the broker would raise.\<close>

definition cached_env :: env where
  "cached_env = example_env
     \<lparr>mt5_history_deals_get := (\<lambda>a b. Fetch_raises),
      memo := (\<lambda>a b. Some (DataFrame (sort_key time (map frame_row example_deals))))\<rparr>"

section \<open>Properties\<close>

subsection \<open>Each step as one update of the state\<close>

lemma rows_select_rows: "rows (select_rows p df) = filter p (rows df)"
  by (simp add: select_rows_def)

lemma classify_eq:
  "classify s = s\<lparr>heap := (heap s)(fresh s := select_rows is_trade (heap s (raw_data s)),
        Suc (fresh s) := select_rows is_trade (heap s (raw_data s)),
        Suc (Suc (fresh s)) := select_rows is_balance
           (((heap s)(fresh s := select_rows is_trade (heap s (raw_data s)),
              Suc (fresh s) := select_rows is_trade (heap s (raw_data s)))) (raw_data s)),
        Suc (Suc (Suc (fresh s))) := select_rows is_balance
           (((heap s)(fresh s := select_rows is_trade (heap s (raw_data s)),
              Suc (fresh s) := select_rows is_trade (heap s (raw_data s)))) (raw_data s))),
     fresh := Suc (Suc (Suc (Suc (fresh s)))), trade_data := Suc (fresh s),
     balance_data := Suc (Suc (Suc (fresh s)))\<rparr>"
  by (simp add: classify_def new_frame_def Let_def)

lemma count_trades_eq:
  "count_trades s = s\<lparr>heap := (heap s)(fresh s :=
         select_rows (\<lambda>r. entry r = DEAL_ENTRY_OUT) (heap s (trade_data s))),
     fresh := Suc (fresh s), closing_deals := fresh s,
     net_profit := sum_list (map profit (rows (heap s (trade_data s)))),
     total_trades := length (rows
         (select_rows (\<lambda>r. entry r = DEAL_ENTRY_OUT) (heap s (trade_data s))))\<rparr>"
  by (simp add: count_trades_def new_frame_def Let_def)

lemma split_wins_losses_eq:
  "split_wins_losses s = s\<lparr>heap := (heap s)(fresh s :=
         select_rows (\<lambda>r. profit r > 0) (heap s (closing_deals s)),
       Suc (fresh s) := select_rows (\<lambda>r. profit r < 0)
         (((heap s)(fresh s := select_rows (\<lambda>r. profit r > 0) (heap s (closing_deals s))))
           (closing_deals s))),
     fresh := Suc (Suc (fresh s)), wins := fresh s, losses := Suc (fresh s),
     winning_trades := length (rows (select_rows (\<lambda>r. profit r > 0) (heap s (closing_deals s)))),
     losing_trades := length (rows (select_rows (\<lambda>r. profit r < 0)
         (((heap s)(fresh s := select_rows (\<lambda>r. profit r > 0) (heap s (closing_deals s))))
           (closing_deals s))))\<rparr>"
  by (simp add: split_wins_losses_def new_frame_def Let_def)

lemma ratios_eq:
  "ratios s = s\<lparr>win_rate :=
        (if total_trades s > 0
         then of_nat (winning_trades s) / of_nat (total_trades s) * 100 else 0),
      total_profit := sum_list (map profit (rows (heap s (wins s)))),
      total_loss := \<bar>sum_list (map profit (rows (heap s (losses s))))\<bar>,
      profit_factor :=
        (if \<bar>sum_list (map profit (rows (heap s (losses s))))\<bar> > 0
         then Fin (sum_list (map profit (rows (heap s (wins s))))
                / \<bar>sum_list (map profit (rows (heap s (losses s))))\<bar>)
         else PosInf)\<rparr>"
  by (simp add: ratios_def Let_def)

lemma averages_eq:
  "averages s = s\<lparr>avg_win :=
        (if winning_trades s > 0 then mean (map profit (rows (heap s (wins s)))) else 0),
     avg_loss :=
        (if losing_trades s > 0 then \<bar>mean (map profit (rows (heap s (losses s))))\<bar> else 0)\<rparr>"
  by (simp add: averages_def Let_def)

lemma kpis_eq:
  "kpis s = s\<lparr>out := out s @ [St_metric ''Net Profit ($)'' (Fin (net_profit s)),
      St_metric ''Total Trades'' (Fin (of_nat (total_trades s))),
      St_metric ''Win Rate (%)'' (Fin (win_rate s)),
      St_metric ''Profit Factor'' (profit_factor s)]\<rparr>"
  by (simp add: kpis_def emit_def)

lemma charts_eq:
  "charts e s = s\<lparr>heap := (heap s)(trade_data s :=
        (heap s (trade_data s))\<lparr>cumulative_profit :=
           Some (cumsum (map profit (rows (heap s (trade_data s)))))\<rparr>),
      profit_by_symbol := sort_values_profit e (groupby_symbol_sum (rows
         (((heap s)(trade_data s :=
            (heap s (trade_data s))\<lparr>cumulative_profit :=
               Some (cumsum (map profit (rows (heap s (trade_data s)))))\<rparr>)) (closing_deals s)))),
      out := out s @ [Plotly_line (zip (map time (rows (heap s (trade_data s))))
                 (cumsum (map profit (rows (heap s (trade_data s)))))),
         Plotly_bar (sort_values_profit e (groupby_symbol_sum (rows
           (((heap s)(trade_data s :=
              (heap s (trade_data s))\<lparr>cumulative_profit :=
                 Some (cumsum (map profit (rows (heap s (trade_data s)))))\<rparr>))
             (closing_deals s)))))]\<rparr>"
  by (simp add: charts_def emit_def Let_def)

lemma relabel_type_eq:
  "relabel_type s = s\<lparr>heap := (heap s)(trade_data s :=
       (heap s (trade_data s))\<lparr>rows :=
          map (\<lambda>r. r\<lparr>type := replace (type r)\<rparr>) (rows (heap s (trade_data s)))\<rparr>)\<rparr>"
  by (simp add: relabel_type_def Let_def)

lemma zero_profit_filter_eq:
  "zero_profit_filter s = s\<lparr>heap := (heap s)(fresh s :=
        select_rows (\<lambda>r. profit r \<noteq> 0) (heap s (trade_data s))),
      fresh := Suc (fresh s), trade_data := fresh s\<rparr>"
  by (simp add: zero_profit_filter_def new_frame_def Let_def)

lemma detail_sections_eq:
  "detail_sections s = s\<lparr>out := out s @ Trade_table (rows (heap s (trade_data s))) #
      (if rows (heap s (balance_data s)) \<noteq> []
       then [Balance_table
         (map (\<lambda>r. (time r, ticket r, profit r)) (rows (heap s (balance_data s))))]
       else [])\<rparr>"
  by (simp add: detail_sections_def emit_def Let_def empty_def)

lemmas step_eqs = classify_eq count_trades_eq split_wins_losses_eq ratios_eq averages_eq
  metrics_def kpis_eq charts_eq

subsection \<open>The state when line 147 is reached\<close>

lemma analysed_vars:
  "raw_data (charts e (kpis (metrics (classify (init raw))))) = 1"
  "trade_data (charts e (kpis (metrics (classify (init raw))))) = 3"
  "balance_data (charts e (kpis (metrics (classify (init raw))))) = 5"
  "closing_deals (charts e (kpis (metrics (classify (init raw))))) = 6"
  "wins (charts e (kpis (metrics (classify (init raw))))) = 7"
  "losses (charts e (kpis (metrics (classify (init raw))))) = 8"
  "fresh (charts e (kpis (metrics (classify (init raw))))) = 9"
  by (simp_all add: step_eqs init_def)

lemma analysed_heap:
  "heap (charts e (kpis (metrics (classify (init raw))))) 1 = raw"
  "heap (charts e (kpis (metrics (classify (init raw))))) 3 =
     (select_rows is_trade raw)\<lparr>cumulative_profit :=
        Some (cumsum (map profit (rows (select_rows is_trade raw))))\<rparr>"
  "heap (charts e (kpis (metrics (classify (init raw))))) 5 = select_rows is_balance raw"
  "heap (charts e (kpis (metrics (classify (init raw))))) 6 =
     select_rows (\<lambda>r. entry r = DEAL_ENTRY_OUT) (select_rows is_trade raw)"
  "heap (charts e (kpis (metrics (classify (init raw))))) 7 =
     select_rows (\<lambda>r. profit r > 0)
       (select_rows (\<lambda>r. entry r = DEAL_ENTRY_OUT) (select_rows is_trade raw))"
  "heap (charts e (kpis (metrics (classify (init raw))))) 8 =
     select_rows (\<lambda>r. profit r < 0)
       (select_rows (\<lambda>r. entry r = DEAL_ENTRY_OUT) (select_rows is_trade raw))"
  by (simp_all add: step_eqs init_def)

subsection \<open>What the dashboard renders\<close>

lemma dashboard_out:
  "out (dashboard e raw) =
     (let T = filter is_trade (rows raw);
          C = filter (\<lambda>r. entry r = DEAL_ENTRY_OUT) T;
          W = filter (\<lambda>r. profit r > 0) C;
          L = filter (\<lambda>r. profit r < 0) C;
          B = filter is_balance (rows raw)
      in if rows raw = [] then [St_warning
           ''No account activity found for the selected period. Please select a different date range.'']
         else if T = [] then [St_warning
           ''No actual trades (Buys/Sells) found for the selected period. Only balance operations were detected.'']
         else [St_metric ''Net Profit ($)'' (Fin (sum_list (map profit T))),
               St_metric ''Total Trades'' (Fin (of_nat (length C))),
               St_metric ''Win Rate (%)''
                 (Fin (if length C > 0 then of_nat (length W) / of_nat (length C) * 100 else 0)),
               St_metric ''Profit Factor''
                 (if \<bar>sum_list (map profit L)\<bar> > 0
                  then Fin (sum_list (map profit W) / \<bar>sum_list (map profit L)\<bar>) else PosInf),
               Plotly_line (zip (map time T) (cumsum (map profit T))),
               Plotly_bar (sort_values_profit e (groupby_symbol_sum C)),
               Trade_table (filter (\<lambda>r. profit r \<noteq> 0)
                 (map (\<lambda>r. r\<lparr>type := replace (type r)\<rparr>) T))]
              @ (if B \<noteq> [] then [Balance_table (map (\<lambda>r. (time r, ticket r, profit r)) B)]
                 else []))"
  by (simp add: dashboard_def Let_def empty_def init_def emit_def step_eqs relabel_type_eq
      zero_profit_filter_eq detail_sections_eq rows_select_rows)

lemma dashboard_no_call: "filter is_call (out (dashboard e raw)) = []"
  by (simp add: dashboard_out Let_def)

subsection \<open>The order of datetimes\<close>

lemma validation_check: "start_datetime s \<ge> end_datetime t \<longleftrightarrow> t < s"
  by (auto simp: start_datetime_def end_datetime_def datetime_combine_def datetime_min_time_def
      datetime_max_time_def less_eq_prod_def less_prod_def)

subsection \<open>The script as a whole\<close>

lemma run_eq:
  "run e u =
     (if \<not> analyze_button u
      then ([St_info ''Please select a date range and click 'Analyze Performance' to begin.''], Done)
      else if end_date u < start_date u
      then ([St_error ''Error: Start date must be before the end date.''], Done)
      else if \<not> mt5_initialize e
      then ([MT5_initialize,
             St_error ''Failed to initialize MetaTrader 5. Make sure the terminal is running.''],
            Stopped)
      else
        (case memo e (start_datetime (start_date u)) (end_datetime (end_date u)) of
           Some df \<Rightarrow>
             ([MT5_initialize,
               Get_trade_history (start_datetime (start_date u)) (end_datetime (end_date u)),
               MT5_shutdown] @ out (dashboard e df), Done)
         | None \<Rightarrow>
             (case get_trade_history_body e (start_datetime (start_date u))
                     (end_datetime (end_date u)) of
                None \<Rightarrow>
                  ([MT5_initialize,
                    Get_trade_history (start_datetime (start_date u)) (end_datetime (end_date u)),
                    MT5_history_deals_get (start_datetime (start_date u))
                      (end_datetime (end_date u))], Raised)
              | Some raw \<Rightarrow>
                  ([MT5_initialize,
                    Get_trade_history (start_datetime (start_date u)) (end_datetime (end_date u)),
                    MT5_history_deals_get (start_datetime (start_date u))
                      (end_datetime (end_date u)),
                    MT5_shutdown] @ out (dashboard e raw), Done))))"
  by (simp add: run_def validation_check fetch_block_def connect_to_mt5_def
      get_trade_history_def split: option.splits)

lemma dashboard_events:
  "ev \<in> set (out (dashboard e raw)) \<Longrightarrow> \<not> is_call ev"
  using dashboard_no_call [of e raw] by (simp add: filter_empty_conv)

lemma dashboard_no_error: "St_error m \<notin> set (out (dashboard e raw))"
  by (simp add: dashboard_out Let_def)

subsection \<open>Validation of the dates\<close>

text \<open>
  C9. The range passed to the fetch is widened to whole days: the start is 00:00:00 of
  the start date and the end is 23:59:59.999999 of the end date, and every call of
  \<open>get_trade_history\<close> and of \<open>mt5.history_deals_get\<close> in a request has exactly these
  arguments (such a call is made when the button is pressed, the start date is not
  after the end date and the terminal initialises). For one and the same date the
  start is strictly before the end, so the check \<open>start_datetime >= end_datetime\<close> of
  line 65 does not reject the request: no validation error is shown and the first thing
  the request does is to open the terminal.
\<close>

theorem whole_day_range:
  "start_datetime sd = (sd, (0, 0, 0, 0)) \<and> end_datetime ed = (ed, (23, 59, 59, 999999))
   \<and> (\<forall>a b. Get_trade_history a b \<in> set (fst (run e u)) \<or>
             MT5_history_deals_get a b \<in> set (fst (run e u)) \<longrightarrow>
        a = start_datetime (start_date u) \<and> b = end_datetime (end_date u))
   \<and> (analyze_button u \<and> start_date u \<le> end_date u \<and> mt5_initialize e \<longrightarrow>
        Get_trade_history (start_datetime (start_date u)) (end_datetime (end_date u))
          \<in> set (fst (run e u)))
   \<and> start_datetime sd < end_datetime sd
   \<and> \<not> (start_datetime sd \<ge> end_datetime sd)
   \<and> (analyze_button u \<and> start_date u = end_date u \<longrightarrow>
        St_error ''Error: Start date must be before the end date.'' \<notin> set (fst (run e u))
        \<and> hd (fst (run e u)) = MT5_initialize)"
proof -
  have 1: "start_datetime sd = (sd, (0, 0, 0, 0))" "end_datetime ed = (ed, (23, 59, 59, 999999))"
    by (simp_all add: start_datetime_def end_datetime_def datetime_combine_def
        datetime_min_time_def datetime_max_time_def)
  have 2: "\<not> (start_datetime sd \<ge> end_datetime sd)"
    by (simp add: validation_check)
  have 3: "a = start_datetime (start_date u) \<and> b = end_datetime (end_date u)"
    if "Get_trade_history a b \<in> set (fst (run e u)) \<or>
        MT5_history_deals_get a b \<in> set (fst (run e u))" for a b
    using that dashboard_events [of "Get_trade_history a b" e]
      dashboard_events [of "MT5_history_deals_get a b" e]
    by (auto simp: run_eq split: if_splits option.splits)
  have 4: "Get_trade_history (start_datetime (start_date u)) (end_datetime (end_date u))
          \<in> set (fst (run e u))"
    if "analyze_button u" "start_date u \<le> end_date u" "mt5_initialize e"
    using that by (simp add: run_eq not_less [symmetric] split: option.splits)
  have 5: "St_error ''Error: Start date must be before the end date.'' \<notin> set (fst (run e u))
        \<and> hd (fst (run e u)) = MT5_initialize"
    if "analyze_button u" "start_date u = end_date u"
    using that by (simp add: run_eq dashboard_no_error split: option.splits)
  from 1 2 3 4 5 show ?thesis by (simp add: not_le [symmetric])
qed


theorem whole_day_range_witness:
  "analyze_button example_ui \<and> start_date example_ui = end_date example_ui
   \<and> mt5_initialize example_env
   \<and> Get_trade_history ((2024, 1, 15), (0, 0, 0, 0)) ((2024, 1, 15), (23, 59, 59, 999999))
        \<in> set (fst (run example_env example_ui))
   \<and> St_error ''Error: Start date must be before the end date.''
        \<notin> set (fst (run example_env example_ui))"
proof -
  have b: "analyze_button example_ui" "mt5_initialize example_env"
    by (simp_all add: example_ui_def example_env_def)
  have d: "start_date example_ui = (2024, 1, 15)" "end_date example_ui = (2024, 1, 15)"
    by (simp_all add: example_ui_def)
  note w = whole_day_range [of "(2024, 1, 15)" "(2024, 1, 15)" example_env example_ui,
      unfolded d]
  from w have eq: "start_datetime (2024, 1, 15) = ((2024, 1, 15), (0, 0, 0, 0))"
    "end_datetime (2024, 1, 15) = ((2024, 1, 15), (23, 59, 59, 999999))"
    by blast+
  from w b have g: "Get_trade_history (start_datetime (2024, 1, 15))
      (end_datetime (2024, 1, 15)) \<in> set (fst (run example_env example_ui))"
    by blast
  from w b have n: "St_error ''Error: Start date must be before the end date.''
        \<notin> set (fst (run example_env example_ui))"
    by blast
  from g n b show ?thesis unfolding eq d by simp
qed

subsection \<open>Equal dates and a start after the end\<close>

lemma example_range:
  "start_datetime (start_date example_ui) = ((2024, 1, 15), (0, 0, 0, 0))"
  "end_datetime (end_date example_ui) = ((2024, 1, 15), (23, 59, 59, 999999))"
  by (simp_all add: example_ui_def start_datetime_def end_datetime_def datetime_combine_def
      datetime_min_time_def datetime_max_time_def)

lemma example_ui_valid:
  "analyze_button example_ui" "\<not> end_date example_ui < start_date example_ui"
  "start_date example_ui = end_date example_ui" "start_date example_ui \<le> end_date example_ui"
  by (simp_all add: example_ui_def)

text \<open>
  C1, as the specification states it, fails: the user selects 15 January 2024 as start
  and as end and presses the button. The request is not rejected; the terminal is
  opened and the deals of that day are fetched.
\<close>

theorem equal_dates_counterexample:
  "start_date example_ui = end_date example_ui \<and> analyze_button example_ui
   \<and> run (example_env\<lparr>mt5_history_deals_get := (\<lambda>a b. Fetch_none)\<rparr>) example_ui =
       ([MT5_initialize,
         Get_trade_history ((2024, 1, 15), (0, 0, 0, 0)) ((2024, 1, 15), (23, 59, 59, 999999)),
         MT5_history_deals_get ((2024, 1, 15), (0, 0, 0, 0))
           ((2024, 1, 15), (23, 59, 59, 999999)),
         MT5_shutdown,
         St_warning ''No account activity found for the selected period. Please select a different date range.''],
        Done)"
proof -
  have "run (example_env\<lparr>mt5_history_deals_get := (\<lambda>a b. Fetch_none)\<rparr>) example_ui =
       ([MT5_initialize,
         Get_trade_history ((2024, 1, 15), (0, 0, 0, 0)) ((2024, 1, 15), (23, 59, 59, 999999)),
         MT5_history_deals_get ((2024, 1, 15), (0, 0, 0, 0))
           ((2024, 1, 15), (23, 59, 59, 999999)),
         MT5_shutdown,
         St_warning ''No account activity found for the selected period. Please select a different date range.''],
        Done)"
    by (simp add: run_eq example_range example_ui_valid(1,2) example_env_def
        get_trade_history_body_def dashboard_out DataFrame_def)
  with example_ui_valid show ?thesis by blast
qed

text \<open>
  C1, amended. A request whose start date is after its end date is rejected with the
  validation error and nothing else happens. A request whose start date is the end date
  or before it passes the check: it begins by opening the terminal and shows no
  validation error. The broker is called in a request exactly when the button is
  pressed and the start date is not after the end date.
\<close>

theorem validation_rejects_later_start:
  "(analyze_button u \<and> end_date u < start_date u \<longrightarrow>
      run e u = ([St_error ''Error: Start date must be before the end date.''], Done))
   \<and> (analyze_button u \<and> start_date u \<le> end_date u \<longrightarrow>
      hd (fst (run e u)) = MT5_initialize
      \<and> St_error ''Error: Start date must be before the end date.'' \<notin> set (fst (run e u)))
   \<and> (filter is_call (fst (run e u)) \<noteq> [] \<longleftrightarrow> analyze_button u \<and> start_date u \<le> end_date u)"
proof (cases "analyze_button u")
  case False
  then show ?thesis by (simp add: run_eq)
next
  case True
  show ?thesis
  proof (cases "end_date u < start_date u")
    case True
    with \<open>analyze_button u\<close> show ?thesis by (simp add: run_eq not_le)
  next
    case False
    with \<open>analyze_button u\<close> show ?thesis
      by (auto simp: run_eq dashboard_no_error dashboard_no_call split: option.splits)
  qed
qed

theorem validation_rejects_later_start_witness:
  "hd (fst (run example_env example_ui)) = MT5_initialize
   \<and> run example_env (example_ui\<lparr>start_date := (2024, 1, 16)\<rparr>) =
       ([St_error ''Error: Start date must be before the end date.''], Done)
   \<and> filter is_call (fst (run example_env example_ui)) \<noteq> []"
proof -
  have a: "analyze_button example_ui \<and> start_date example_ui \<le> end_date example_ui"
    by (simp add: example_ui_def)
  have b: "analyze_button (example_ui\<lparr>start_date := (2024, 1, 16)\<rparr>)
      \<and> end_date (example_ui\<lparr>start_date := (2024, 1, 16)\<rparr>)
        < start_date (example_ui\<lparr>start_date := (2024, 1, 16)\<rparr>)"
    by (simp add: example_ui_def less_prod_def)
  from validation_rejects_later_start [of example_ui example_env] a
    validation_rejects_later_start [of "example_ui\<lparr>start_date := (2024, 1, 16)\<rparr>" example_env] b
  show ?thesis by blast
qed

subsection \<open>Opening and closing the terminal\<close>

text \<open>
  C3, as the specification states it, fails: when \<open>mt5.history_deals_get\<close> raises, the
  exception leaves the script at line 70 and \<open>mt5.shutdown()\<close> of line 71 is not
  reached.
\<close>

theorem fetch_error_counterexample:
  "analyze_button example_ui \<and> start_date example_ui \<le> end_date example_ui
   \<and> run (example_env\<lparr>mt5_history_deals_get := (\<lambda>a b. Fetch_raises)\<rparr>) example_ui =
       ([MT5_initialize,
         Get_trade_history ((2024, 1, 15), (0, 0, 0, 0)) ((2024, 1, 15), (23, 59, 59, 999999)),
         MT5_history_deals_get ((2024, 1, 15), (0, 0, 0, 0))
           ((2024, 1, 15), (23, 59, 59, 999999))],
        Raised)
   \<and> MT5_shutdown \<notin> set (fst (run (example_env\<lparr>mt5_history_deals_get := (\<lambda>a b. Fetch_raises)\<rparr>)
         example_ui))"
proof -
  have "run (example_env\<lparr>mt5_history_deals_get := (\<lambda>a b. Fetch_raises)\<rparr>) example_ui =
       ([MT5_initialize,
         Get_trade_history ((2024, 1, 15), (0, 0, 0, 0)) ((2024, 1, 15), (23, 59, 59, 999999)),
         MT5_history_deals_get ((2024, 1, 15), (0, 0, 0, 0))
           ((2024, 1, 15), (23, 59, 59, 999999))],
        Raised)"
    by (simp add: run_eq example_range example_ui_valid(1,2) example_env_def
        get_trade_history_body_def)
  with example_ui_valid show ?thesis by simp
qed

text \<open>
  C3, amended. In a request that passes the date check, \<open>mt5.initialize\<close> is called
  once. When it fails, the request stops there with no fetch and no shutdown. When it
  succeeds, \<open>get_trade_history\<close> is called exactly once, which calls the broker once
  unless the memo holds the result; when that call returns, \<open>mt5.shutdown\<close> is called
  once, after it; when the broker call raises, the
  request ends with the exception and \<open>mt5.shutdown\<close> is not called.
\<close>

theorem connection_scope:
  assumes "analyze_button u" and "start_date u \<le> end_date u"
  shows "(\<not> mt5_initialize e \<longrightarrow>
            filter is_call (fst (run e u)) = [MT5_initialize] \<and> snd (run e u) = Stopped)
    \<and> (mt5_initialize e \<and> memo e (start_datetime (start_date u)) (end_datetime (end_date u)) \<noteq> None \<longrightarrow>
         filter is_call (fst (run e u)) =
           [MT5_initialize,
            Get_trade_history (start_datetime (start_date u)) (end_datetime (end_date u)),
            MT5_shutdown]
         \<and> snd (run e u) = Done)
    \<and> (mt5_initialize e \<and> memo e (start_datetime (start_date u)) (end_datetime (end_date u)) = None
         \<and> mt5_history_deals_get e (start_datetime (start_date u)) (end_datetime (end_date u))
             \<noteq> Fetch_raises \<longrightarrow>
         filter is_call (fst (run e u)) =
           [MT5_initialize,
            Get_trade_history (start_datetime (start_date u)) (end_datetime (end_date u)),
            MT5_history_deals_get (start_datetime (start_date u)) (end_datetime (end_date u)),
            MT5_shutdown]
         \<and> snd (run e u) = Done)
    \<and> (mt5_initialize e \<and> memo e (start_datetime (start_date u)) (end_datetime (end_date u)) = None
         \<and> mt5_history_deals_get e (start_datetime (start_date u)) (end_datetime (end_date u))
             = Fetch_raises \<longrightarrow>
         run e u =
           ([MT5_initialize,
             Get_trade_history (start_datetime (start_date u)) (end_datetime (end_date u)),
             MT5_history_deals_get (start_datetime (start_date u)) (end_datetime (end_date u))],
            Raised))"
  using assms
  by (auto simp: run_eq dashboard_no_call get_trade_history_body_def not_less [symmetric]
      split: option.splits fetch.splits)


theorem connection_scope_witness:
  "filter is_call (fst (run example_env example_ui)) =
     [MT5_initialize,
      Get_trade_history ((2024, 1, 15), (0, 0, 0, 0)) ((2024, 1, 15), (23, 59, 59, 999999)),
      MT5_history_deals_get ((2024, 1, 15), (0, 0, 0, 0)) ((2024, 1, 15), (23, 59, 59, 999999)),
      MT5_shutdown]
   \<and> snd (run example_env example_ui) = Done
   \<and> filter is_call (fst (run (example_env\<lparr>mt5_initialize := False\<rparr>) example_ui)) =
       [MT5_initialize]
   \<and> snd (run (example_env\<lparr>mt5_initialize := False\<rparr>) example_ui) = Stopped"
proof -
  have e: "mt5_initialize example_env" "memo example_env a b = None"
    "mt5_history_deals_get example_env a b \<noteq> Fetch_raises"
    "\<not> mt5_initialize (example_env\<lparr>mt5_initialize := False\<rparr>)" for a b
    by (simp_all add: example_env_def)
  from connection_scope [OF example_ui_valid(1,4), of example_env] e(1,2,3)
  have 1: "filter is_call (fst (run example_env example_ui)) =
     [MT5_initialize,
      Get_trade_history (start_datetime (start_date example_ui))
        (end_datetime (end_date example_ui)),
      MT5_history_deals_get (start_datetime (start_date example_ui))
        (end_datetime (end_date example_ui)),
      MT5_shutdown]
   \<and> snd (run example_env example_ui) = Done"
    by blast
  from connection_scope [OF example_ui_valid(1,4), of "example_env\<lparr>mt5_initialize := False\<rparr>"]
    e(4)
  have 2: "filter is_call (fst (run (example_env\<lparr>mt5_initialize := False\<rparr>) example_ui)) =
       [MT5_initialize]
   \<and> snd (run (example_env\<lparr>mt5_initialize := False\<rparr>) example_ui) = Stopped"
    by blast
  from 1 2 show ?thesis unfolding example_range by blast
qed

subsection \<open>Sums and running sums\<close>

lemma sum_list_negative:
  "xs \<noteq> [] \<Longrightarrow> \<forall>x\<in>set xs. x < 0 \<Longrightarrow> sum_list xs < (0::rat)"
proof (induction xs)
  case Nil
  then show ?case by simp
next
  case (Cons x xs)
  show ?case
  proof (cases "xs = []")
    case True
    with Cons.prems show ?thesis by simp
  next
    case False
    with Cons have "sum_list xs < 0" "x < 0" by simp_all
    then show ?thesis by (simp add: add_neg_neg)
  qed
qed

lemma losses_sum_negative:
  "filter (\<lambda>r. profit r < 0) rs \<noteq> [] \<Longrightarrow>
   sum_list (map profit (filter (\<lambda>r. profit r < 0) rs)) < 0"
  by (rule sum_list_negative) auto

lemma length_cumsum_from: "length (cumsum_from a xs) = length xs"
  by (induction xs arbitrary: a) simp_all



lemma nth_cumsum_from:
  "i < length xs \<Longrightarrow> cumsum_from a xs ! i = a + sum_list (take (Suc i) xs)"
proof (induction xs arbitrary: a i)
  case Nil
  then show ?case by simp
next
  case (Cons x xs)
  then show ?case
    by (cases i) (simp_all add: add.assoc)
qed

subsection \<open>The figures\<close>

lemma metrics_heap:
  "heap (metrics (classify (init raw))) (wins (metrics (classify (init raw)))) =
     select_rows (\<lambda>r. profit r > 0)
       (select_rows (\<lambda>r. entry r = DEAL_ENTRY_OUT) (select_rows is_trade raw))"
  "heap (metrics (classify (init raw))) (losses (metrics (classify (init raw)))) =
     select_rows (\<lambda>r. profit r < 0)
       (select_rows (\<lambda>r. entry r = DEAL_ENTRY_OUT) (select_rows is_trade raw))"
  "heap (metrics (classify (init raw))) (closing_deals (metrics (classify (init raw)))) =
     select_rows (\<lambda>r. entry r = DEAL_ENTRY_OUT) (select_rows is_trade raw)"
  "heap (metrics (classify (init raw))) (trade_data (metrics (classify (init raw)))) =
     select_rows is_trade raw"
  by (simp_all add: step_eqs init_def)

lemma metrics_profit_factor:
  "profit_factor (metrics (classify (init raw))) =
     (let C = filter (\<lambda>r. entry r = DEAL_ENTRY_OUT) (filter is_trade (rows raw));
          W = filter (\<lambda>r. profit r > 0) C;
          L = filter (\<lambda>r. profit r < 0) C
      in if \<bar>sum_list (map profit L)\<bar> > 0
         then Fin (sum_list (map profit W) / \<bar>sum_list (map profit L)\<bar>) else PosInf)"
  by (simp add: step_eqs init_def rows_select_rows Let_def)

text \<open>
  C2, amended. With the closing entries those trade entries whose \<open>entry\<close> is Out, the
  wins those of positive and the losses those of negative profit:
  \<open>profit_factor\<close> is positive infinity exactly when there is no loss, whether or not
  there is a win; when there is a loss, the sum of the losses is not zero and
  \<open>profit_factor\<close> is the sum of the wins divided by the absolute value of the sum of
  the losses, which is 0 when there is no win.
\<close>

theorem profit_factor_cases:
  "let s = metrics (classify (init raw));
       C = filter (\<lambda>r. entry r = DEAL_ENTRY_OUT) (filter is_trade (rows raw));
       W = filter (\<lambda>r. profit r > 0) C;
       L = filter (\<lambda>r. profit r < 0) C
   in rows (heap s (closing_deals s)) = C
      \<and> rows (heap s (wins s)) = W
      \<and> rows (heap s (losses s)) = L
      \<and> (profit_factor s = PosInf \<longleftrightarrow> L = [])
      \<and> (L \<noteq> [] \<longrightarrow>
           sum_list (map profit L) \<noteq> 0
           \<and> profit_factor s = Fin (sum_list (map profit W) / \<bar>sum_list (map profit L)\<bar>))
      \<and> (W = [] \<and> L \<noteq> [] \<longrightarrow> profit_factor s = Fin 0)"
proof -
  let ?C = "filter (\<lambda>r. entry r = DEAL_ENTRY_OUT) (filter is_trade (rows raw))"
  let ?W = "filter (\<lambda>r. profit r > 0) ?C"
  let ?L = "filter (\<lambda>r. profit r < 0) ?C"
  have neg: "sum_list (map profit ?L) < 0" if "?L \<noteq> []"
    using that by (rule losses_sum_negative)
  have pf: "profit_factor (metrics (classify (init raw))) =
      (if ?L = [] then PosInf else Fin (sum_list (map profit ?W) / \<bar>sum_list (map profit ?L)\<bar>))"
  proof (cases "?L = []")
    case True
    then show ?thesis by (simp add: metrics_profit_factor Let_def del: filter_filter)
  next
    case False
    with neg [OF False] show ?thesis
      by (simp add: metrics_profit_factor Let_def del: filter_filter)
  qed
  have nz: "sum_list (map profit ?L) \<noteq> 0" if "?L \<noteq> []"
    using neg [OF that] by simp
  show ?thesis
    using nz by (simp add: metrics_heap rows_select_rows Let_def pf del: filter_filter)
qed


lemma frame_row_example:
  "frame_row (example_deal t k sy ty en p) =
     \<lparr>time = t, ticket = k, symbol = sy, type = Int_cell ty, entry = en, volume = 1 / 10,
      price = 1, profit = p, comment = []\<rparr>"
  by (simp add: frame_row_def example_deal_def)

text \<open>
  C2, as the specification states it, fails: with one closing entry of profit 0 there
  is no closing entry of positive profit, and \<open>profit_factor\<close> is positive infinity
  all the same (not 0).
\<close>

theorem profit_factor_counterexample:
  "filter (\<lambda>r. entry r = DEAL_ENTRY_OUT \<and> profit r > 0)
      (filter is_trade (rows (DataFrame (map frame_row flat_deals)))) = []
   \<and> filter (\<lambda>r. entry r = DEAL_ENTRY_OUT)
      (filter is_trade (rows (DataFrame (map frame_row flat_deals)))) \<noteq> []
   \<and> profit_factor (metrics (classify (init (DataFrame (map frame_row flat_deals))))) = PosInf"
  by (simp add: metrics_profit_factor Let_def flat_deals_def frame_row_example DataFrame_def
      is_trade_def DEAL_TYPE_BUY_def DEAL_TYPE_SELL_def DEAL_ENTRY_OUT_def)

theorem profit_factor_cases_witness:
  "filter (\<lambda>r. profit r < 0) (filter (\<lambda>r. entry r = DEAL_ENTRY_OUT)
      (filter is_trade (rows example_raw))) \<noteq> []
   \<and> profit_factor (metrics (classify (init example_raw))) = Fin (5 / 2)
   \<and> filter (\<lambda>r. profit r < 0) (filter (\<lambda>r. entry r = DEAL_ENTRY_OUT)
      (filter is_trade (rows (DataFrame (map frame_row flat_deals))))) = []
   \<and> profit_factor (metrics (classify (init (DataFrame (map frame_row flat_deals))))) = PosInf"
proof -
  have a: "filter (\<lambda>r. profit r < 0) (filter (\<lambda>r. entry r = DEAL_ENTRY_OUT)
      (filter is_trade (rows example_raw))) \<noteq> []"
    by (simp add: example_raw_def example_deals_def frame_row_example DataFrame_def
      is_trade_def DEAL_TYPE_BUY_def DEAL_TYPE_SELL_def DEAL_ENTRY_OUT_def)
  have b: "filter (\<lambda>r. profit r < 0) (filter (\<lambda>r. entry r = DEAL_ENTRY_OUT)
      (filter is_trade (rows (DataFrame (map frame_row flat_deals))))) = []"
    by (simp add: flat_deals_def frame_row_example DataFrame_def
      is_trade_def DEAL_TYPE_BUY_def DEAL_TYPE_SELL_def DEAL_ENTRY_OUT_def)
  have c: "Fin (sum_list (map profit (filter (\<lambda>r. profit r > 0) (filter (\<lambda>r. entry r = DEAL_ENTRY_OUT)
      (filter is_trade (rows example_raw))))) / \<bar>sum_list (map profit (filter (\<lambda>r. profit r < 0) (filter (\<lambda>r. entry r = DEAL_ENTRY_OUT)
      (filter is_trade (rows example_raw)))))\<bar>) = Fin (5 / 2)"
    by (simp add: example_raw_def example_deals_def frame_row_example DataFrame_def
      is_trade_def DEAL_TYPE_BUY_def DEAL_TYPE_SELL_def DEAL_ENTRY_OUT_def)
  from profit_factor_cases [of example_raw] a
  have "profit_factor (metrics (classify (init example_raw))) = Fin (sum_list (map profit (filter (\<lambda>r. profit r > 0) (filter (\<lambda>r. entry r = DEAL_ENTRY_OUT)
      (filter is_trade (rows example_raw))))) / \<bar>sum_list (map profit (filter (\<lambda>r. profit r < 0) (filter (\<lambda>r. entry r = DEAL_ENTRY_OUT)
      (filter is_trade (rows example_raw)))))\<bar>)"
    unfolding Let_def by blast
  with c have 1: "profit_factor (metrics (classify (init example_raw))) = Fin (5 / 2)"
    by simp
  from profit_factor_cases [of "DataFrame (map frame_row flat_deals)"] b
  have 2: "profit_factor (metrics (classify (init (DataFrame (map frame_row flat_deals))))) = PosInf"
    unfolding Let_def by blast
  from a b 1 2 show ?thesis by blast
qed

subsection \<open>Classification\<close>

lemma classify_frames:
  "heap (classify (init raw)) (trade_data (classify (init raw))) = select_rows is_trade raw"
  "heap (classify (init raw)) (balance_data (classify (init raw))) = select_rows is_balance raw"
  "heap (classify (init raw)) (raw_data (classify (init raw))) = raw"
  "trade_data (classify (init raw)) \<noteq> raw_data (classify (init raw))"
  "balance_data (classify (init raw)) \<noteq> raw_data (classify (init raw))"
  "balance_data (classify (init raw)) \<noteq> trade_data (classify (init raw))"
  by (simp_all add: classify_eq init_def)

lemma is_trade_fun:
  "is_trade = (\<lambda>r. type r = Int_cell DEAL_TYPE_BUY \<or> type r = Int_cell DEAL_TYPE_SELL)"
  by (auto simp: fun_eq_iff is_trade_def)

lemma is_balance_fun: "is_balance = (\<lambda>r. type r = Int_cell DEAL_TYPE_BALANCE)"
  by (auto simp: fun_eq_iff is_balance_def)

text \<open>
  C5. For every raw frame, line 77 leaves in \<open>trade_data\<close> the rows of type Buy or
  Sell and line 80 leaves in \<open>balance_data\<close> the rows of type Balance, each in the
  order of the raw frame. The two have no row in common, every row of either is a row
  of the raw frame, a row of any other type is in neither, and the mask of line 77
  applied to \<open>trade_data\<close> selects all of its rows again.
\<close>

theorem classify_partition:
  "let s = classify (init raw);
       T = rows (heap s (trade_data s));
       B = rows (heap s (balance_data s))
   in T = filter (\<lambda>r. type r = Int_cell DEAL_TYPE_BUY \<or> type r = Int_cell DEAL_TYPE_SELL)
            (rows raw)
      \<and> B = filter (\<lambda>r. type r = Int_cell DEAL_TYPE_BALANCE) (rows raw)
      \<and> set T \<inter> set B = {}
      \<and> set T \<union> set B \<subseteq> set (rows raw)
      \<and> (\<forall>r\<in>set (rows raw).
            type r \<noteq> Int_cell DEAL_TYPE_BUY \<and> type r \<noteq> Int_cell DEAL_TYPE_SELL
            \<and> type r \<noteq> Int_cell DEAL_TYPE_BALANCE \<longrightarrow> r \<notin> set T \<and> r \<notin> set B)
      \<and> rows (select_rows is_trade (heap s (trade_data s))) = T"
  by (auto simp: classify_frames rows_select_rows Let_def is_trade_fun is_balance_fun
      DEAL_TYPE_BUY_def DEAL_TYPE_SELL_def DEAL_TYPE_BALANCE_def)

lemma example_raw_rows:
  "rows example_raw =
     [\<lparr>time = 300, ticket = 3, symbol = ''GBPUSD'', type = Int_cell 1, entry = 1,
        volume = 1 / 10, price = 1, profit = - 40, comment = []\<rparr>,
      \<lparr>time = 100, ticket = 1, symbol = ''EURUSD'', type = Int_cell 0, entry = 0,
        volume = 1 / 10, price = 1, profit = 0, comment = []\<rparr>,
      \<lparr>time = 200, ticket = 2, symbol = ''EURUSD'', type = Int_cell 1, entry = 1,
        volume = 1 / 10, price = 1, profit = 100, comment = []\<rparr>,
      \<lparr>time = 50, ticket = 4, symbol = [], type = Int_cell 2, entry = 0,
        volume = 1 / 10, price = 1, profit = 500, comment = []\<rparr>,
      \<lparr>time = 60, ticket = 5, symbol = [], type = Int_cell 6, entry = 0,
        volume = 1 / 10, price = 1, profit = - 1, comment = []\<rparr>]"
  by (simp add: example_raw_def example_deals_def frame_row_example DataFrame_def)

theorem classify_partition_witness:
  "\<lparr>time = 60, ticket = 5, symbol = [], type = Int_cell 6, entry = 0,
        volume = 1 / 10, price = 1, profit = - 1, comment = []\<rparr> \<in> set (rows example_raw)
   \<and> map ticket (rows (heap (classify (init example_raw))
         (trade_data (classify (init example_raw))))) = [3, 1, 2]
   \<and> map ticket (rows (heap (classify (init example_raw))
         (balance_data (classify (init example_raw))))) = [4]"
proof -
  from classify_partition [of example_raw]
  have "rows (heap (classify (init example_raw)) (trade_data (classify (init example_raw)))) =
      filter (\<lambda>r. type r = Int_cell DEAL_TYPE_BUY \<or> type r = Int_cell DEAL_TYPE_SELL)
            (rows example_raw)"
    and "rows (heap (classify (init example_raw)) (balance_data (classify (init example_raw)))) =
      filter (\<lambda>r. type r = Int_cell DEAL_TYPE_BALANCE) (rows example_raw)"
    unfolding Let_def by blast+
  then show ?thesis
    by (simp add: example_raw_rows DEAL_TYPE_BUY_def DEAL_TYPE_SELL_def DEAL_TYPE_BALANCE_def)
qed

subsection \<open>The display-only transformations (lines 147 to 151)\<close>

lemma analysed_figures:
  "net_profit (charts e (kpis (metrics (classify (init raw))))) =
     sum_list (map profit (filter is_trade (rows raw)))"
  "total_trades (charts e (kpis (metrics (classify (init raw))))) =
     length (filter (\<lambda>r. entry r = DEAL_ENTRY_OUT) (filter is_trade (rows raw)))"
  "winning_trades (charts e (kpis (metrics (classify (init raw))))) =
     length (filter (\<lambda>r. profit r > 0)
       (filter (\<lambda>r. entry r = DEAL_ENTRY_OUT) (filter is_trade (rows raw))))"
  "losing_trades (charts e (kpis (metrics (classify (init raw))))) =
     length (filter (\<lambda>r. profit r < 0)
       (filter (\<lambda>r. entry r = DEAL_ENTRY_OUT) (filter is_trade (rows raw))))"
  "profit_by_symbol (charts e (kpis (metrics (classify (init raw))))) =
     sort_values_profit e (groupby_symbol_sum
       (filter (\<lambda>r. entry r = DEAL_ENTRY_OUT) (filter is_trade (rows raw))))"
  by (simp_all add: step_eqs init_def rows_select_rows del: filter_filter)

lemma display_keeps_figures:
  "net_profit (zero_profit_filter (relabel_type s)) = net_profit s"
  "total_trades (zero_profit_filter (relabel_type s)) = total_trades s"
  "winning_trades (zero_profit_filter (relabel_type s)) = winning_trades s"
  "losing_trades (zero_profit_filter (relabel_type s)) = losing_trades s"
  "win_rate (zero_profit_filter (relabel_type s)) = win_rate s"
  "total_profit (zero_profit_filter (relabel_type s)) = total_profit s"
  "total_loss (zero_profit_filter (relabel_type s)) = total_loss s"
  "profit_factor (zero_profit_filter (relabel_type s)) = profit_factor s"
  "avg_win (zero_profit_filter (relabel_type s)) = avg_win s"
  "avg_loss (zero_profit_filter (relabel_type s)) = avg_loss s"
  "profit_by_symbol (zero_profit_filter (relabel_type s)) = profit_by_symbol s"
  "out (zero_profit_filter (relabel_type s)) = out s"
  by (simp_all add: relabel_type_eq zero_profit_filter_eq)

lemma display_keeps_vars:
  "raw_data (zero_profit_filter (relabel_type s)) = raw_data s"
  "balance_data (zero_profit_filter (relabel_type s)) = balance_data s"
  "closing_deals (zero_profit_filter (relabel_type s)) = closing_deals s"
  "wins (zero_profit_filter (relabel_type s)) = wins s"
  "losses (zero_profit_filter (relabel_type s)) = losses s"
  "trade_data (zero_profit_filter (relabel_type s)) = fresh s"
  by (simp_all add: relabel_type_eq zero_profit_filter_eq)

lemma display_heap:
  "heap (zero_profit_filter (relabel_type s)) =
     (heap s)(trade_data s :=
        (heap s (trade_data s))\<lparr>rows :=
          map (\<lambda>r. r\<lparr>type := replace (type r)\<rparr>) (rows (heap s (trade_data s)))\<rparr>,
      fresh s := select_rows (\<lambda>r. profit r \<noteq> 0)
        ((heap s (trade_data s))\<lparr>rows :=
          map (\<lambda>r. r\<lparr>type := replace (type r)\<rparr>) (rows (heap s (trade_data s)))\<rparr>))"
  by (simp add: relabel_type_eq zero_profit_filter_eq)

text \<open>
  C7. Let \<open>s\<close> be the state when line 147 is reached and \<open>s'\<close> the state after lines 148
  and 151. The frame \<open>trade_data\<close> points to is not the raw frame (line 77 copied
  it), and the two lines change nothing but that frame and the binding of
  \<open>trade_data\<close>: the raw frame, the balance frame and the frames of the closing deals,
  the wins and the losses are as before, and so is every other frame but the old and
  the new \<open>trade_data\<close>; every figure (net profit, the counts, win rate, total profit
  and loss, profit factor, the averages, the profit by symbol) is as before; what was
  rendered, the metrics and both charts, is as before, and the detail sections only add
  to it.
\<close>

theorem display_on_copy:
  "let s = charts e (kpis (metrics (classify (init raw))));
       s' = zero_profit_filter (relabel_type s)
   in trade_data s \<noteq> raw_data s
      \<and> heap s (raw_data s) = raw
      \<and> raw_data s' = raw_data s \<and> heap s' (raw_data s') = raw
      \<and> balance_data s' = balance_data s
      \<and> heap s' (balance_data s') = heap s (balance_data s)
      \<and> closing_deals s' = closing_deals s
      \<and> heap s' (closing_deals s') = heap s (closing_deals s)
      \<and> wins s' = wins s \<and> heap s' (wins s') = heap s (wins s)
      \<and> losses s' = losses s \<and> heap s' (losses s') = heap s (losses s)
      \<and> (\<forall>a. a \<noteq> trade_data s \<and> a \<noteq> trade_data s' \<longrightarrow> heap s' a = heap s a)
      \<and> net_profit s' = net_profit s
      \<and> total_trades s' = total_trades s
      \<and> winning_trades s' = winning_trades s
      \<and> losing_trades s' = losing_trades s
      \<and> win_rate s' = win_rate s
      \<and> total_profit s' = total_profit s
      \<and> total_loss s' = total_loss s
      \<and> profit_factor s' = profit_factor s
      \<and> avg_win s' = avg_win s
      \<and> avg_loss s' = avg_loss s
      \<and> profit_by_symbol s' = profit_by_symbol s
      \<and> out s' = out s
      \<and> out (detail_sections s') =
          out s @ Trade_table (rows (heap s' (trade_data s'))) #
            (if rows (heap s (balance_data s)) \<noteq> []
             then [Balance_table (map (\<lambda>r. (time r, ticket r, profit r))
                     (rows (heap s (balance_data s))))]
             else [])"
  by (simp add: Let_def display_keeps_figures display_keeps_vars display_heap
      analysed_vars analysed_heap analysed_heap(1) [unfolded One_nat_def] detail_sections_eq)


theorem display_on_copy_witness:
  "raw_data (charts example_env (kpis (metrics (classify (init example_raw)))))
     \<noteq> trade_data (charts example_env (kpis (metrics (classify (init example_raw)))))
   \<and> raw_data (charts example_env (kpis (metrics (classify (init example_raw)))))
     \<noteq> trade_data (zero_profit_filter (relabel_type
         (charts example_env (kpis (metrics (classify (init example_raw)))))))
   \<and> heap (zero_profit_filter (relabel_type
         (charts example_env (kpis (metrics (classify (init example_raw)))))))
       (raw_data (charts example_env (kpis (metrics (classify (init example_raw)))))) =
      example_raw
   \<and> map type (rows example_raw) =
      [Int_cell 1, Int_cell 0, Int_cell 1, Int_cell 2, Int_cell 6]
   \<and> map type (rows (heap (zero_profit_filter (relabel_type
         (charts example_env (kpis (metrics (classify (init example_raw)))))))
       (trade_data (zero_profit_filter (relabel_type
         (charts example_env (kpis (metrics (classify (init example_raw)))))))))) =
      [Str_cell ''Buy'', Str_cell ''Buy'']"
proof -
  let ?s = "charts example_env (kpis (metrics (classify (init example_raw))))"
  let ?s' = "zero_profit_filter (relabel_type ?s)"
  have a: "raw_data ?s \<noteq> trade_data ?s \<and> raw_data ?s \<noteq> trade_data ?s'"
    by (simp add: analysed_vars display_keeps_vars)
  from display_on_copy [of example_env example_raw]
  have f: "\<forall>a. a \<noteq> trade_data ?s \<and> a \<noteq> trade_data ?s' \<longrightarrow> heap ?s' a = heap ?s a"
    and r: "heap ?s (raw_data ?s) = example_raw"
    unfolding Let_def by blast+
  from f a r have k: "heap ?s' (raw_data ?s) = example_raw"
    by metis
  have t: "map type (rows example_raw) =
      [Int_cell 1, Int_cell 0, Int_cell 1, Int_cell 2, Int_cell 6]"
    by (simp add: example_raw_rows)
  have d: "map type (rows (heap ?s' (trade_data ?s'))) = [Str_cell ''Buy'', Str_cell ''Buy'']"
    by (simp add: display_keeps_vars display_heap analysed_vars analysed_heap
        rows_select_rows example_raw_rows is_trade_def replace_def
        DEAL_TYPE_BUY_def DEAL_TYPE_SELL_def)
  from a k t d show ?thesis by blast
qed

subsection \<open>The trade table\<close>

lemma relabel_trade_rows:
  "filter (\<lambda>r. profit r \<noteq> 0) (map (\<lambda>r. r\<lparr>type := replace (type r)\<rparr>) (filter is_trade rs)) =
   map (\<lambda>r. r\<lparr>type := (if type r = Int_cell DEAL_TYPE_BUY then Str_cell ''Sell''
                          else Str_cell ''Buy'')\<rparr>)
     (filter (\<lambda>r. profit r \<noteq> 0) (filter is_trade rs))"
  by (induction rs) (auto simp: is_trade_def replace_def)

text \<open>
  C8. The trade table is rendered exactly when there is a trade entry, and its rows
  are the trade entries of profit other than 0, in their order, each with every column
  as stored but \<open>type\<close>: a stored Buy is shown as the text Sell and a stored Sell as
  the text Buy.
\<close>

theorem displayed_labels_inverted:
  "replace (Int_cell DEAL_TYPE_BUY) = Str_cell ''Sell''
   \<and> replace (Int_cell DEAL_TYPE_SELL) = Str_cell ''Buy''
   \<and> (Trade_table rs \<in> set (out (dashboard e raw)) \<longleftrightarrow>
        filter is_trade (rows raw) \<noteq> []
        \<and> rs = map (\<lambda>r. r\<lparr>type := (if type r = Int_cell DEAL_TYPE_BUY then Str_cell ''Sell''
                                      else Str_cell ''Buy'')\<rparr>)
                 (filter (\<lambda>r. profit r \<noteq> 0) (filter is_trade (rows raw))))"
proof -
  have 1: "replace (Int_cell DEAL_TYPE_BUY) = Str_cell ''Sell''"
    "replace (Int_cell DEAL_TYPE_SELL) = Str_cell ''Buy''"
    by (simp_all add: replace_def DEAL_TYPE_BUY_def DEAL_TYPE_SELL_def)
  have 2: "filter is_trade (rows raw) = []" if "rows raw = []"
    using that by simp
  have 3: "Trade_table rs \<in> set (out (dashboard e raw)) \<longleftrightarrow>
        filter is_trade (rows raw) \<noteq> []
        \<and> rs = map (\<lambda>r. r\<lparr>type := (if type r = Int_cell DEAL_TYPE_BUY then Str_cell ''Sell''
                                      else Str_cell ''Buy'')\<rparr>)
                 (filter (\<lambda>r. profit r \<noteq> 0) (filter is_trade (rows raw)))"
    using 2 by (auto simp: dashboard_out Let_def relabel_trade_rows simp del: filter_filter)
  from 1 3 show ?thesis by blast
qed


theorem displayed_labels_inverted_witness:
  "map type (rows (DataFrame (map frame_row tied_deals))) = [Int_cell 0, Int_cell 1]
   \<and> Trade_table
        [\<lparr>time = 100, ticket = 1, symbol = ''EURUSD'', type = Str_cell ''Sell'', entry = 1,
           volume = 1 / 10, price = 1, profit = 10, comment = []\<rparr>,
         \<lparr>time = 100, ticket = 2, symbol = ''EURUSD'', type = Str_cell ''Buy'', entry = 1,
           volume = 1 / 10, price = 1, profit = - 5, comment = []\<rparr>]
      \<in> set (out (dashboard example_env (DataFrame (map frame_row tied_deals))))"
proof -
  let ?raw = "DataFrame (map frame_row tied_deals)"
  have r: "rows ?raw =
      [\<lparr>time = 100, ticket = 1, symbol = ''EURUSD'', type = Int_cell 0, entry = 1,
         volume = 1 / 10, price = 1, profit = 10, comment = []\<rparr>,
       \<lparr>time = 100, ticket = 2, symbol = ''EURUSD'', type = Int_cell 1, entry = 1,
         volume = 1 / 10, price = 1, profit = - 5, comment = []\<rparr>]"
    by (simp add: tied_deals_def frame_row_example DataFrame_def)
  have a: "filter is_trade (rows ?raw) \<noteq> []"
    by (simp add: r is_trade_def DEAL_TYPE_BUY_def DEAL_TYPE_SELL_def)
  have b: "map (\<lambda>r. r\<lparr>type := (if type r = Int_cell DEAL_TYPE_BUY then Str_cell ''Sell''
                                      else Str_cell ''Buy'')\<rparr>)
                 (filter (\<lambda>r. profit r \<noteq> 0) (filter is_trade (rows ?raw))) =
        [\<lparr>time = 100, ticket = 1, symbol = ''EURUSD'', type = Str_cell ''Sell'', entry = 1,
           volume = 1 / 10, price = 1, profit = 10, comment = []\<rparr>,
         \<lparr>time = 100, ticket = 2, symbol = ''EURUSD'', type = Str_cell ''Buy'', entry = 1,
           volume = 1 / 10, price = 1, profit = - 5, comment = []\<rparr>]"
    by (simp add: r is_trade_def DEAL_TYPE_BUY_def DEAL_TYPE_SELL_def)
  have t: "map type (rows ?raw) = [Int_cell 0, Int_cell 1]"
    by (simp add: r)
  from displayed_labels_inverted [of _ example_env ?raw] a b
  have "Trade_table
        [\<lparr>time = 100, ticket = 1, symbol = ''EURUSD'', type = Str_cell ''Sell'', entry = 1,
           volume = 1 / 10, price = 1, profit = 10, comment = []\<rparr>,
         \<lparr>time = 100, ticket = 2, symbol = ''EURUSD'', type = Str_cell ''Buy'', entry = 1,
           volume = 1 / 10, price = 1, profit = - 5, comment = []\<rparr>]
      \<in> set (out (dashboard example_env ?raw))"
    by metis
  with t show ?thesis by blast
qed

subsection \<open>Requests without trades or without closing deals\<close>

lemma sort_key_ok: "sort_values_ok k (sort_key k)"
  by (simp add: sort_values_ok_def)

lemma sort_values_ok_Nil: "sort_values_ok k f \<Longrightarrow> f [] = []"
  by (metis mset_zero_iff sort_values_ok_def)

lemma dashboard_analysed:
  "filter is_trade (rows raw) \<noteq> [] \<Longrightarrow>
   dashboard e raw = detail_sections (zero_profit_filter (relabel_type
     (charts e (kpis (metrics (classify (init raw)))))))"
proof -
  assume a: "filter is_trade (rows raw) \<noteq> []"
  then have "rows raw \<noteq> []" by auto
  moreover have "heap (init raw) (raw_data (init raw)) = raw"
    by (simp add: init_def)
  ultimately show ?thesis
    using a by (simp add: dashboard_def Let_def empty_def classify_frames rows_select_rows)
qed

lemma detail_keeps_figures:
  "total_trades (detail_sections s) = total_trades s"
  "win_rate (detail_sections s) = win_rate s"
  "profit_factor (detail_sections s) = profit_factor s"
  "avg_win (detail_sections s) = avg_win s"
  "avg_loss (detail_sections s) = avg_loss s"
  "profit_by_symbol (detail_sections s) = profit_by_symbol s"
  by (simp_all add: detail_sections_eq)

lemma no_closing_figures:
  assumes "filter (\<lambda>r. entry r = DEAL_ENTRY_OUT) (filter is_trade (rows raw)) = []"
  shows "total_trades (charts e (kpis (metrics (classify (init raw))))) = 0"
    "win_rate (charts e (kpis (metrics (classify (init raw))))) = 0"
    "profit_factor (charts e (kpis (metrics (classify (init raw))))) = PosInf"
    "avg_win (charts e (kpis (metrics (classify (init raw))))) = 0"
    "avg_loss (charts e (kpis (metrics (classify (init raw))))) = 0"
    "profit_by_symbol (charts e (kpis (metrics (classify (init raw))))) =
       sort_values_profit e []"
  using assms
  by (simp_all add: step_eqs init_def rows_select_rows groupby_symbol_sum_def
      del: filter_filter)

text \<open>
  C10, as the specification states it, fails: when the fetch returns no entry there is
  no entry of type Buy or Sell either, and what is shown is that no account activity
  was found (lines 73 and 74), not that no actual trades were found.
\<close>

theorem no_trades_counterexample:
  "get_trade_history_body (example_env\<lparr>mt5_history_deals_get := (\<lambda>a b. Fetch_none)\<rparr>)
       ((2024, 1, 15), (0, 0, 0, 0)) ((2024, 1, 15), (23, 59, 59, 999999)) =
     Some (DataFrame [])
   \<and> filter is_trade (rows (DataFrame [])) = []
   \<and> out (dashboard example_env (DataFrame [])) =
       [St_warning ''No account activity found for the selected period. Please select a different date range.'']
   \<and> St_warning ''No actual trades (Buys/Sells) found for the selected period. Only balance operations were detected.''
       \<notin> set (out (dashboard example_env (DataFrame [])))"
  by (simp add: get_trade_history_body_def example_env_def dashboard_out DataFrame_def)

text \<open>
  C10, amended. The warning that no actual trades were found is shown if and only if
  the fetch returned at least one entry and none of the entries is of type Buy or
  Sell; when the fetch returned no entry, only the warning that no account activity
  was found is shown. When there are trade entries and none of them has \<open>entry\<close> Out
  (and sorting the empty series gives the empty series, as every sort does), the
  script computes and renders the figures: \<open>total_trades\<close> is 0, \<open>win_rate\<close> is 0,
  \<open>profit_factor\<close> is positive infinity, \<open>avg_win\<close> and \<open>avg_loss\<close> are 0 and
  \<open>profit_by_symbol\<close> is empty; the four metrics, the equity curve and an empty bar
  chart are rendered.
\<close>

theorem no_trades_state:
  "(St_warning ''No actual trades (Buys/Sells) found for the selected period. Only balance operations were detected.''
        \<in> set (out (dashboard e raw)) \<longleftrightarrow>
      rows raw \<noteq> [] \<and> filter is_trade (rows raw) = [])
   \<and> (rows raw = [] \<longrightarrow>
        out (dashboard e raw) =
          [St_warning ''No account activity found for the selected period. Please select a different date range.''])
   \<and> (filter is_trade (rows raw) \<noteq> []
        \<and> filter (\<lambda>r. entry r = DEAL_ENTRY_OUT) (filter is_trade (rows raw)) = []
        \<and> sort_values_ok snd (sort_values_profit e) \<longrightarrow>
          total_trades (dashboard e raw) = 0
          \<and> win_rate (dashboard e raw) = 0
          \<and> profit_factor (dashboard e raw) = PosInf
          \<and> avg_win (dashboard e raw) = 0
          \<and> avg_loss (dashboard e raw) = 0
          \<and> profit_by_symbol (dashboard e raw) = []
          \<and> take 6 (out (dashboard e raw)) =
              [St_metric ''Net Profit ($)''
                 (Fin (sum_list (map profit (filter is_trade (rows raw))))),
               St_metric ''Total Trades'' (Fin 0),
               St_metric ''Win Rate (%)'' (Fin 0),
               St_metric ''Profit Factor'' PosInf,
               Plotly_line (zip (map time (filter is_trade (rows raw)))
                 (cumsum (map profit (filter is_trade (rows raw))))),
               Plotly_bar []])"
proof -
  have 1: "St_warning ''No actual trades (Buys/Sells) found for the selected period. Only balance operations were detected.''
        \<in> set (out (dashboard e raw)) \<longleftrightarrow>
      rows raw \<noteq> [] \<and> filter is_trade (rows raw) = []"
    by (simp add: dashboard_out Let_def del: filter_filter)
  have 0: "out (dashboard e raw) =
          [St_warning ''No account activity found for the selected period. Please select a different date range.'']"
    if "rows raw = []"
    using that by (simp add: dashboard_out Let_def)
  have 2: "total_trades (dashboard e raw) = 0
          \<and> win_rate (dashboard e raw) = 0
          \<and> profit_factor (dashboard e raw) = PosInf
          \<and> avg_win (dashboard e raw) = 0
          \<and> avg_loss (dashboard e raw) = 0
          \<and> profit_by_symbol (dashboard e raw) = []"
    if t: "filter is_trade (rows raw) \<noteq> []"
      and c: "filter (\<lambda>r. entry r = DEAL_ENTRY_OUT) (filter is_trade (rows raw)) = []"
      and ok: "sort_values_ok snd (sort_values_profit e)"
    using sort_values_ok_Nil [OF ok]
    by (simp add: dashboard_analysed [OF t] detail_keeps_figures display_keeps_figures
        no_closing_figures [OF c])
  have 3: "take 6 (out (dashboard e raw)) =
              [St_metric ''Net Profit ($)''
                 (Fin (sum_list (map profit (filter is_trade (rows raw))))),
               St_metric ''Total Trades'' (Fin 0),
               St_metric ''Win Rate (%)'' (Fin 0),
               St_metric ''Profit Factor'' PosInf,
               Plotly_line (zip (map time (filter is_trade (rows raw)))
                 (cumsum (map profit (filter is_trade (rows raw))))),
               Plotly_bar []]"
    if t: "filter is_trade (rows raw) \<noteq> []"
      and c: "filter (\<lambda>r. entry r = DEAL_ENTRY_OUT) (filter is_trade (rows raw)) = []"
      and ok: "sort_values_ok snd (sort_values_profit e)"
  proof -
    from t have "rows raw \<noteq> []" by auto
    with sort_values_ok_Nil [OF ok] t c show ?thesis
      by (simp add: dashboard_out Let_def groupby_symbol_sum_def del: filter_filter)
  qed
  from 0 1 2 3 show ?thesis by blast
qed

theorem no_trades_state_witness:
  "filter is_trade (rows (DataFrame (map frame_row open_deals))) \<noteq> []
   \<and> filter (\<lambda>r. entry r = DEAL_ENTRY_OUT)
        (filter is_trade (rows (DataFrame (map frame_row open_deals)))) = []
   \<and> sort_values_ok snd (sort_values_profit example_env)
   \<and> total_trades (dashboard example_env (DataFrame (map frame_row open_deals))) = 0
   \<and> win_rate (dashboard example_env (DataFrame (map frame_row open_deals))) = 0
   \<and> profit_factor (dashboard example_env (DataFrame (map frame_row open_deals))) = PosInf
   \<and> avg_win (dashboard example_env (DataFrame (map frame_row open_deals))) = 0
   \<and> avg_loss (dashboard example_env (DataFrame (map frame_row open_deals))) = 0
   \<and> profit_by_symbol (dashboard example_env (DataFrame (map frame_row open_deals))) = []
   \<and> rows (DataFrame [frame_row (example_deal 50 4 [] 2 0 500)]) \<noteq> []
   \<and> St_warning ''No actual trades (Buys/Sells) found for the selected period. Only balance operations were detected.''
        \<in> set (out (dashboard example_env
              (DataFrame [frame_row (example_deal 50 4 [] 2 0 500)])))
   \<and> rows (DataFrame []) = []
   \<and> out (dashboard example_env (DataFrame [])) =
        [St_warning ''No account activity found for the selected period. Please select a different date range.'']"
proof -
  let ?raw = "DataFrame (map frame_row open_deals)"
  let ?bal = "DataFrame [frame_row (example_deal 50 4 [] 2 0 500)]"
  have t: "filter is_trade (rows ?raw) \<noteq> []"
    by (simp add: open_deals_def frame_row_example DataFrame_def is_trade_def
        DEAL_TYPE_BUY_def DEAL_TYPE_SELL_def)
  have c: "filter (\<lambda>r. entry r = DEAL_ENTRY_OUT) (filter is_trade (rows ?raw)) = []"
    by (simp add: open_deals_def frame_row_example DataFrame_def is_trade_def
        DEAL_TYPE_BUY_def DEAL_TYPE_SELL_def DEAL_ENTRY_OUT_def)
  have ok: "sort_values_ok snd (sort_values_profit example_env)"
    by (simp add: example_env_def sort_key_ok)
  have b: "rows ?bal \<noteq> []" "filter is_trade (rows ?bal) = []"
    by (simp_all add: frame_row_example DataFrame_def is_trade_def
        DEAL_TYPE_BUY_def DEAL_TYPE_SELL_def)
  have n: "rows (DataFrame []) = []"
    by (simp add: DataFrame_def)
  from no_trades_state [of example_env ?raw] t c ok
  have 1: "total_trades (dashboard example_env ?raw) = 0
      \<and> win_rate (dashboard example_env ?raw) = 0
      \<and> profit_factor (dashboard example_env ?raw) = PosInf
      \<and> avg_win (dashboard example_env ?raw) = 0
      \<and> avg_loss (dashboard example_env ?raw) = 0
      \<and> profit_by_symbol (dashboard example_env ?raw) = []"
    by blast
  from no_trades_state [of example_env ?bal] b
  have 2: "St_warning ''No actual trades (Buys/Sells) found for the selected period. Only balance operations were detected.''
        \<in> set (out (dashboard example_env ?bal))"
    by blast
  from no_trades_state [of example_env "DataFrame []"] n
  have 3: "out (dashboard example_env (DataFrame [])) =
        [St_warning ''No account activity found for the selected period. Please select a different date range.'']"
    by blast
  from t c ok b(1) n 1 2 3 show ?thesis by blast
qed

subsection \<open>The equity curve and the net profit\<close>

























subsection \<open>The order of the equity curve\<close>

lemma cumsum_running:
  "length (cumsum xs) = length xs"
  "i < length xs \<Longrightarrow> cumsum xs ! i = sum_list (take (Suc i) xs)"
  by (simp_all add: cumsum_def length_cumsum_from nth_cumsum_from)

lemma sorted_filter_time:
  "sorted (map time rs) \<Longrightarrow> sorted (map time (filter p rs))"
  by (induction rs) auto

lemma body_frame:
  assumes "sort_values_ok time (sort_values_time e)"
    and "get_trade_history_body e a b = Some raw"
  shows "sorted (map time (rows raw))"
proof (cases "mt5_history_deals_get e a b")
  case Fetch_raises
  with assms(2) show ?thesis by (simp add: get_trade_history_body_def)
next
  case Fetch_none
  with assms(2) show ?thesis by (auto simp: get_trade_history_body_def DataFrame_def)
next
  case (Fetch_deals deals)
  with assms(2) have "raw = DataFrame [] \<or> raw = DataFrame (sort_values_time e (map frame_row deals))"
    by (auto simp: get_trade_history_body_def split: if_splits)
  with assms(1) show ?thesis
    by (auto simp: sort_values_ok_def DataFrame_def)
qed

lemma fetched_sorted:
  assumes "sort_values_ok time (sort_values_time e)"
    and "memo_ok e"
    and "snd (get_trade_history e a b) = Some raw"
  shows "sorted (map time (rows raw))"
proof (cases "memo e a b")
  case None
  with assms(3) have "get_trade_history_body e a b = Some raw"
    by (simp add: get_trade_history_def)
  with assms(1) show ?thesis by (rule body_frame)
next
  case (Some df)
  with assms(3) have "memo e a b = Some raw"
    by (simp add: get_trade_history_def)
  with assms(2) obtain e' where "sort_values_ok time (sort_values_time e')"
    and "get_trade_history_body e' a b = Some raw"
    unfolding memo_ok_def by blast
  then show ?thesis by (rule body_frame)
qed

lemma fetched_frame:
  assumes "sort_values_ok time (sort_values_time e)"
    and "memo e a b = None"
    and "mt5_history_deals_get e a b = Fetch_deals deals"
  shows "get_trade_history e a b =
     ([Get_trade_history a b, MT5_history_deals_get a b],
      Some (DataFrame (sort_values_time e (map frame_row deals))))"
  using assms sort_values_ok_Nil [OF assms(1)]
  by (simp add: get_trade_history_def get_trade_history_body_def)

text \<open>
  C4, amended. Let the sort of line 37 return its input reordered and ascending in
  \<open>time\<close> (what \<open>sort_values\<close> promises for its default kind), and let the memo hold
  only frames that \<open>get_trade_history\<close> returned earlier with such a sort. Then the
  frame a request works on, fetched or served from the memo, is ascending in time; when
  it is fetched, it holds the deals of the broker, reordered. The trade entries are
  those of its rows that are Buy or Sell, in that order and so ascending in time, and
  \<open>cumulative_profit\<close> is their running sum of \<open>profit\<close>: it has one value for each
  trade entry, the value at each position is the sum of the profits up to and including
  that position, and the equity curve plots it against the times. All of it is a
  function of the deals and of the sort; which of two entries of equal time comes first
  is what the sort leaves, not necessarily the order of the input.
\<close>

theorem cumulative_profit_series:
  assumes "sort_values_ok time (sort_values_time e)"
    and "memo_ok e"
    and "snd (get_trade_history e a b) = Some raw"
  shows "let s = charts e (kpis (metrics (classify (init raw))));
             T = rows (heap s (trade_data s));
             cs = cumsum (map profit T)
         in sorted (map time (rows raw))
            \<and> (\<forall>deals. memo e a b = None \<and> mt5_history_deals_get e a b = Fetch_deals deals \<longrightarrow>
                 raw = DataFrame (sort_values_time e (map frame_row deals))
                 \<and> mset (rows raw) = mset (map frame_row deals))
            \<and> T = filter is_trade (rows raw)
            \<and> sorted (map time T)
            \<and> cumulative_profit (heap s (trade_data s)) = Some cs
            \<and> length cs = length T
            \<and> (\<forall>i<length T. cs ! i = sum_list (map profit (take (Suc i) T)))
            \<and> Plotly_line (zip (map time T) cs) \<in> set (out s)"
proof -
  let ?s = "charts e (kpis (metrics (classify (init raw))))"
  let ?T = "filter is_trade (rows raw)"
  have o: "sorted (map time (rows raw))"
    using assms by (rule fetched_sorted)
  have m: "raw = DataFrame (sort_values_time e (map frame_row deals))
      \<and> mset (rows raw) = mset (map frame_row deals)"
    if "memo e a b = None" "mt5_history_deals_get e a b = Fetch_deals deals" for deals
  proof -
    from fetched_frame [OF assms(1) that] assms(3)
    have "raw = DataFrame (sort_values_time e (map frame_row deals))" by simp
    with assms(1) show ?thesis by (simp add: sort_values_ok_def DataFrame_def)
  qed
  have t: "rows (heap ?s (trade_data ?s)) = ?T"
    by (simp add: analysed_vars analysed_heap rows_select_rows)
  have c: "cumulative_profit (heap ?s (trade_data ?s)) = Some (cumsum (map profit ?T))"
    by (simp add: analysed_vars analysed_heap rows_select_rows)
  have n: "\<forall>i<length ?T. cumsum (map profit ?T) ! i = sum_list (map profit (take (Suc i) ?T))"
    by (simp add: cumsum_running take_map)
  have p: "Plotly_line (zip (map time ?T) (cumsum (map profit ?T))) \<in> set (out ?s)"
    by (simp add: step_eqs init_def rows_select_rows)
  have l: "length (cumsum (map profit ?T)) = length ?T"
    by (simp add: cumsum_running)
  from o m c n p l sorted_filter_time [OF o, of is_trade] show ?thesis
    unfolding Let_def t by blast
qed


lemma same_second_rows:
  "map time (map frame_row same_second_deals) =
     [100, 100, 100, 100, 100, 100, 100, 100, 100, 100, 100, 100, 100, 100, 100, 100, 100, 100]"
  "map ticket (map frame_row same_second_deals) =
     [1, 2, 3, 4, 5, 6, 7, 8, 9, 10, 11, 12, 13, 14, 15, 16, 17, 18]"
  "map profit (map frame_row same_second_deals) =
     [1, 2, 3, 4, 5, 6, 7, 8, 9, 10, 11, 12, 13, 14, 15, 16, 17, 18]"
  "filter is_trade (map frame_row same_second_deals) = map frame_row same_second_deals"
  "length (map frame_row same_second_deals) = 18"
  by (simp_all add: same_second_deals_def frame_row_example is_trade_def DEAL_TYPE_BUY_def
      DEAL_TYPE_SELL_def)

lemma aquicksort_same_second:
  "aquicksort
     [100, 100, 100, 100, 100, 100, 100, 100, 100, 100, 100, 100, 100, 100, 100, 100, 100, 100] =
   Some [0, 15, 14, 13, 12, 11, 10, 9, 8, 7, 6, 5, 4, 3, 2, 1, 16, 17]"
  by code_simp

lemma quicksort_same_second:
  "sort_values_quicksort (map frame_row same_second_deals) =
     map (\<lambda>i. map frame_row same_second_deals ! i)
       [0, 15, 14, 13, 12, 11, 10, 9, 8, 7, 6, 5, 4, 3, 2, 1, 16, 17]"
  unfolding sort_values_quicksort_def same_second_rows(1) aquicksort_same_second
  by simp


lemma quicksort_env_fetch:
  "memo quicksort_env a b = None"
  "mt5_history_deals_get quicksort_env a b = Fetch_deals same_second_deals"
  "sort_values_time quicksort_env = sort_values_quicksort"
  by (simp_all add: quicksort_env_def example_env_def)

text \<open>
  C4, as the specification states it, fails: eighteen closing deals of the same second,
  which the broker lists with the tickets and the profits 1 to 18. The quicksort of
  numpy partitions a range of eighteen and swaps equal keys on its way: the rows come
  out in the order of the tickets 1, 16, 15, ..., 2, 17, 18, ascending in time but not
  in the order of the input, and the curve runs 1, 17, 32, ..., where over the entries
  in the order of a stable sort it would run 1, 3, 6, ...
\<close>

theorem stable_sort_counterexample:
  "map time (map frame_row same_second_deals) =
     [100, 100, 100, 100, 100, 100, 100, 100, 100, 100, 100, 100, 100, 100, 100, 100, 100, 100]
   \<and> map ticket (map frame_row same_second_deals) =
       [1, 2, 3, 4, 5, 6, 7, 8, 9, 10, 11, 12, 13, 14, 15, 16, 17, 18]
   \<and> aquicksort (map time (map frame_row same_second_deals)) =
       Some [0, 15, 14, 13, 12, 11, 10, 9, 8, 7, 6, 5, 4, 3, 2, 1, 16, 17]
   \<and> snd (get_trade_history quicksort_env ((2024, 1, 15), (0, 0, 0, 0))
        ((2024, 1, 15), (23, 59, 59, 999999))) =
       Some (DataFrame (sort_values_quicksort (map frame_row same_second_deals)))
   \<and> map ticket (sort_values_quicksort (map frame_row same_second_deals)) =
       [1, 16, 15, 14, 13, 12, 11, 10, 9, 8, 7, 6, 5, 4, 3, 2, 17, 18]
   \<and> map ticket (sort_key time (map frame_row same_second_deals)) =
       [1, 2, 3, 4, 5, 6, 7, 8, 9, 10, 11, 12, 13, 14, 15, 16, 17, 18]
   \<and> cumsum (map profit (filter is_trade (sort_key time (map frame_row same_second_deals)))) =
       [1, 3, 6, 10, 15, 21, 28, 36, 45, 55, 66, 78, 91, 105, 120, 136, 153, 171]
   \<and> cumulative_profit
        (heap (charts quicksort_env (kpis (metrics (classify (init
           (DataFrame (sort_values_quicksort (map frame_row same_second_deals))))))))
          (trade_data (charts quicksort_env (kpis (metrics (classify (init
           (DataFrame (sort_values_quicksort (map frame_row same_second_deals)))))))))) =
       Some [1, 17, 32, 46, 59, 71, 82, 92, 101, 109, 116, 122, 127, 131, 134, 136, 153, 171]"
proof -
  let ?rs = "map frame_row same_second_deals"
  have q: "aquicksort (map time ?rs) =
       Some [0, 15, 14, 13, 12, 11, 10, 9, 8, 7, 6, 5, 4, 3, 2, 1, 16, 17]"
    unfolding same_second_rows(1) by (rule aquicksort_same_second)
  have g: "snd (get_trade_history quicksort_env ((2024, 1, 15), (0, 0, 0, 0))
        ((2024, 1, 15), (23, 59, 59, 999999))) =
       Some (DataFrame (sort_values_quicksort ?rs))"
    by (simp add: get_trade_history_def get_trade_history_body_def quicksort_env_fetch
        same_second_deals_def)
  have e: "?rs =
     map (\<lambda>k. \<lparr>time = 100, ticket = k, symbol = ''EURUSD'', type = Int_cell 0, entry = 1,
        volume = 1 / 10, price = 1, profit = of_int k, comment = []\<rparr>)
       [1, 2, 3, 4, 5, 6, 7, 8, 9, 10, 11, 12, 13, 14, 15, 16, 17, 18]"
    by (simp add: same_second_deals_def frame_row_example)
  have s: "sort_values_quicksort ?rs =
     map (\<lambda>k. \<lparr>time = 100, ticket = k, symbol = ''EURUSD'', type = Int_cell 0, entry = 1,
        volume = 1 / 10, price = 1, profit = of_int k, comment = []\<rparr>)
       [1, 16, 15, 14, 13, 12, 11, 10, 9, 8, 7, 6, 5, 4, 3, 2, 17, 18]"
    unfolding quicksort_same_second unfolding e by simp
  have t: "map ticket (sort_values_quicksort ?rs) =
       [1, 16, 15, 14, 13, 12, 11, 10, 9, 8, 7, 6, 5, 4, 3, 2, 17, 18]"
    unfolding s by simp
  have k: "map ticket (sort_key time ?rs) =
       [1, 2, 3, 4, 5, 6, 7, 8, 9, 10, 11, 12, 13, 14, 15, 16, 17, 18]"
    unfolding e by simp
  have c: "cumsum (map profit (filter is_trade (sort_key time ?rs))) =
       [1, 3, 6, 10, 15, 21, 28, 36, 45, 55, 66, 78, 91, 105, 120, 136, 153, 171]"
    unfolding e
    by (simp add: cumsum_def is_trade_def DEAL_TYPE_BUY_def DEAL_TYPE_SELL_def)
  have p: "cumulative_profit
        (heap (charts quicksort_env (kpis (metrics (classify (init
           (DataFrame (sort_values_quicksort ?rs)))))))
          (trade_data (charts quicksort_env (kpis (metrics (classify (init
           (DataFrame (sort_values_quicksort ?rs))))))))) =
       Some [1, 17, 32, 46, 59, 71, 82, 92, 101, 109, 116, 122, 127, 131, 134, 136, 153, 171]"
    unfolding s
    by (simp add: analysed_vars analysed_heap rows_select_rows DataFrame_def cumsum_def
        is_trade_def DEAL_TYPE_BUY_def DEAL_TYPE_SELL_def)
  from same_second_rows(1,2) q g t k c p show ?thesis by blast
qed


lemma example_env_fetch:
  "sort_values_ok time (sort_values_time example_env)"
  "memo example_env a b = None"
  "mt5_history_deals_get example_env a b = Fetch_deals example_deals"
  "sort_values_time example_env = sort_key time"
  by (simp_all add: example_env_def sort_key_ok)

lemma example_env_memo_ok: "memo_ok example_env"
  by (simp add: memo_ok_def example_env_fetch)

lemma example_body:
  "get_trade_history_body example_env a b =
     Some (DataFrame (sort_key time (map frame_row example_deals)))"
  by (simp add: get_trade_history_body_def example_env_fetch example_deals_def)

lemma cached_env_fetch:
  "sort_values_ok time (sort_values_time cached_env)"
  "memo cached_env a b = Some (DataFrame (sort_key time (map frame_row example_deals)))"
  by (simp_all add: cached_env_def example_env_def sort_key_ok)

lemma cached_env_memo_ok: "memo_ok cached_env"
  unfolding memo_ok_def
proof (intro allI impI)
  fix a b df
  assume "memo cached_env a b = Some df"
  then have "df = DataFrame (sort_key time (map frame_row example_deals))"
    by (simp add: cached_env_fetch)
  with example_env_fetch(1) example_body [of a b]
  show "\<exists>e'. sort_values_ok time (sort_values_time e')
      \<and> get_trade_history_body e' a b = Some df"
    by blast
qed

lemma example_sorted:
  "sort_key time (map frame_row example_deals) =
     [\<lparr>time = 50, ticket = 4, symbol = [], type = Int_cell 2, entry = 0,
        volume = 1 / 10, price = 1, profit = 500, comment = []\<rparr>,
      \<lparr>time = 60, ticket = 5, symbol = [], type = Int_cell 6, entry = 0,
        volume = 1 / 10, price = 1, profit = - 1, comment = []\<rparr>,
      \<lparr>time = 100, ticket = 1, symbol = ''EURUSD'', type = Int_cell 0, entry = 0,
        volume = 1 / 10, price = 1, profit = 0, comment = []\<rparr>,
      \<lparr>time = 200, ticket = 2, symbol = ''EURUSD'', type = Int_cell 1, entry = 1,
        volume = 1 / 10, price = 1, profit = 100, comment = []\<rparr>,
      \<lparr>time = 300, ticket = 3, symbol = ''GBPUSD'', type = Int_cell 1, entry = 1,
        volume = 1 / 10, price = 1, profit = - 40, comment = []\<rparr>]"
  by (simp add: example_deals_def frame_row_example)

theorem cumulative_profit_series_witness:
  "sort_values_ok time (sort_values_time example_env) \<and> memo_ok example_env
   \<and> snd (get_trade_history example_env ((2024, 1, 15), (0, 0, 0, 0))
        ((2024, 1, 15), (23, 59, 59, 999999))) =
      Some (DataFrame (sort_key time (map frame_row example_deals)))
   \<and> sort_values_ok time (sort_values_time cached_env) \<and> memo_ok cached_env
   \<and> snd (get_trade_history cached_env ((2024, 1, 15), (0, 0, 0, 0))
        ((2024, 1, 15), (23, 59, 59, 999999))) =
      Some (DataFrame (sort_key time (map frame_row example_deals)))
   \<and> map ticket (sort_key time (map frame_row example_deals)) = [4, 5, 1, 2, 3]
   \<and> sorted (map time (rows (DataFrame (sort_key time (map frame_row example_deals)))))
   \<and> cumulative_profit
        (heap (charts example_env (kpis (metrics (classify (init
           (DataFrame (sort_key time (map frame_row example_deals))))))))
          (trade_data (charts example_env (kpis (metrics (classify (init
           (DataFrame (sort_key time (map frame_row example_deals)))))))))) =
      Some [0, 100, 60]
   \<and> cumulative_profit
        (heap (charts cached_env (kpis (metrics (classify (init
           (DataFrame (sort_key time (map frame_row example_deals))))))))
          (trade_data (charts cached_env (kpis (metrics (classify (init
           (DataFrame (sort_key time (map frame_row example_deals)))))))))) =
      Some [0, 100, 60]"
proof -
  let ?a = "((2024, 1, 15), (0, 0, 0, 0)) :: datetime"
  let ?b = "((2024, 1, 15), (23, 59, 59, 999999)) :: datetime"
  let ?raw = "DataFrame (sort_key time (map frame_row example_deals))"
  let ?s = "charts example_env (kpis (metrics (classify (init ?raw))))"
  let ?c = "charts cached_env (kpis (metrics (classify (init ?raw))))"
  have g: "snd (get_trade_history example_env ?a ?b) = Some ?raw"
    by (simp add: get_trade_history_def example_env_fetch example_body)
  have h: "snd (get_trade_history cached_env ?a ?b) = Some ?raw"
    by (simp add: get_trade_history_def cached_env_fetch)
  have v: "cumsum (map profit (filter is_trade (rows ?raw))) = [0, 100, 60]"
    unfolding example_sorted
    by (simp add: DataFrame_def cumsum_def is_trade_def DEAL_TYPE_BUY_def DEAL_TYPE_SELL_def)
  have k: "map ticket (sort_key time (map frame_row example_deals)) = [4, 5, 1, 2, 3]"
    unfolding example_sorted by simp
  note w = cumulative_profit_series [OF example_env_fetch(1) example_env_memo_ok g,
      unfolded Let_def]
  note x = cumulative_profit_series [OF cached_env_fetch(1) cached_env_memo_ok h,
      unfolded Let_def]
  from w have o: "sorted (map time (rows ?raw))"
    by blast
  from w have t: "rows (heap ?s (trade_data ?s)) = filter is_trade (rows ?raw)"
    and c: "cumulative_profit (heap ?s (trade_data ?s)) =
      Some (cumsum (map profit (rows (heap ?s (trade_data ?s)))))"
    by blast+
  from x have t': "rows (heap ?c (trade_data ?c)) = filter is_trade (rows ?raw)"
    and c': "cumulative_profit (heap ?c (trade_data ?c)) =
      Some (cumsum (map profit (rows (heap ?c (trade_data ?c)))))"
    by blast+
  from c have 1: "cumulative_profit (heap ?s (trade_data ?s)) = Some [0, 100, 60]"
    unfolding t v .
  from c' have 2: "cumulative_profit (heap ?c (trade_data ?c)) = Some [0, 100, 60]"
    unfolding t' v .
  from example_env_fetch(1) example_env_memo_ok g cached_env_fetch(1) cached_env_memo_ok h
    k o 1 2
  show ?thesis by blast
qed

end
